theory Spec2Isabelle
  imports Main "HOL-Library.Word" "HOL-Library.Char_ord"
begin

unbundle bit_operations_syntax

section \<open>JavaScript values crossing the native bridge\<close>

text \<open>
  The TypeScript layer (\<^verbatim>\<open>src/WarpLink.ts\<close>) receives untyped values (\<^verbatim>\<open>unknown\<close>) from the
  native module. The values modelled here are the ones a deserialised response can hold:
  \<^verbatim>\<open>undefined\<close>, \<^verbatim>\<open>null\<close>, booleans, numbers, strings, arrays and plain objects with
  string-keyed data properties. A number is its IEEE-754 binary64 bit pattern; the program
  never computes with numbers, it only tests their type and passes them on. A plain object
  is the association list of its own properties (the first binding of a key is its value).
\<close>

datatype jsval =
    JUndefined
  | JNull
  | JBool bool
  | JNum "64 word"
  | JStr string
  | JArr "jsval list"
  | JObj "(string \<times> jsval) list"

text \<open>
  A value that is thrown, or with which a promise rejects: an instance of \<^verbatim>\<open>Error\<close>
  (with its \<^verbatim>\<open>name\<close>, its \<^verbatim>\<open>code\<close> property, which is \<^verbatim>\<open>undefined\<close> when absent, and its
  \<^verbatim>\<open>message\<close>), or any other value.
\<close>

datatype thrown =
    ErrorObj (err_name: string) (err_code: jsval) (err_message: string)
  | NonError jsval

text \<open>\<^verbatim>\<open>typeof v\<close>.\<close>

fun typeof :: "jsval \<Rightarrow> string" where
  "typeof JUndefined = ''undefined''"
| "typeof JNull = ''object''"
| "typeof (JBool b) = ''boolean''"
| "typeof (JNum n) = ''number''"
| "typeof (JStr s) = ''string''"
| "typeof (JArr xs) = ''object''"
| "typeof (JObj ps) = ''object''"

text \<open>\<^verbatim>\<open>v == null\<close> (loose equality with null holds for null and undefined only).\<close>

definition loose_null :: "jsval \<Rightarrow> bool" where
  "loose_null v = (v = JNull \<or> v = JUndefined)"

text \<open>\<^verbatim>\<open>a ?? b\<close>.\<close>

definition nullish :: "jsval \<Rightarrow> jsval \<Rightarrow> jsval" where
  "nullish a b = (if loose_null a then b else a)"

text \<open>
  \<^verbatim>\<open>obj[k]\<close> for the property names this program reads (\<^verbatim>\<open>linkId\<close>, \<^verbatim>\<open>destination\<close>,
  \<^verbatim>\<open>deepLinkUrl\<close>, \<^verbatim>\<open>customParams\<close>, \<^verbatim>\<open>isDeferred\<close>, \<^verbatim>\<open>matchType\<close>, \<^verbatim>\<open>matchConfidence\<close>,
  \<^verbatim>\<open>installId\<close>): none of them is an array index or a property of \<^verbatim>\<open>Object.prototype\<close> or
  \<^verbatim>\<open>Array.prototype\<close>, so the read yields the own property or \<^verbatim>\<open>undefined\<close>.
\<close>

fun getProp :: "jsval \<Rightarrow> string \<Rightarrow> jsval" where
  "getProp (JObj ps) k = (case map_of ps k of None \<Rightarrow> JUndefined | Some v \<Rightarrow> v)"
| "getProp v k = JUndefined"

text \<open>
  \<^verbatim>\<open>Boolean(v)\<close>: false for undefined, null, false, the empty string, and the numbers
  +0, -0 and NaN (bit patterns whose low 63 bits are zero, or exceed those of infinity).
\<close>

definition number_falsy :: "64 word \<Rightarrow> bool" where
  "number_falsy n =
     (let m = n AND 0x7FFFFFFFFFFFFFFF in m = 0 \<or> 0x7FF0000000000000 < m)"

fun ToBoolean :: "jsval \<Rightarrow> bool" where
  "ToBoolean JUndefined = False"
| "ToBoolean JNull = False"
| "ToBoolean (JBool b) = b"
| "ToBoolean (JNum n) = (\<not> number_falsy n)"
| "ToBoolean (JStr s) = (s \<noteq> [])"
| "ToBoolean (JArr xs) = True"
| "ToBoolean (JObj ps) = True"

text \<open>
  \<^verbatim>\<open>String(v)\<close>, the language's ToString conversion. It is not total: an object is converted
  through its \<^verbatim>\<open>toString\<close> and \<^verbatim>\<open>valueOf\<close> methods, and a plain object that has an own data
  property named \<^verbatim>\<open>toString\<close> (which is not callable) falls through to
  \<^verbatim>\<open>Object.prototype.valueOf\<close>, or to an own \<^verbatim>\<open>valueOf\<close> that is not callable either, neither of
  which yields a primitive, so the conversion throws a TypeError. Without such a property the
  inherited \<^verbatim>\<open>Object.prototype.toString\<close> answers \<^verbatim>\<open>[object Object]\<close>. An array is converted
  with \<^verbatim>\<open>Array.prototype.join\<close>: its elements converted in turn and separated by commas, null
  and undefined elements contributing the empty string. The decimal rendering of a number is
  the parameter \<open>N\<close>. The wording of the TypeError's message is the engine's own; the program
  only passes it on.
\<close>

definition TypeError :: thrown where
  "TypeError = ErrorObj ''TypeError'' JUndefined ''Cannot convert object to primitive value''"

fun ToString :: "(64 word \<Rightarrow> string) \<Rightarrow> jsval \<Rightarrow> thrown + string"
  and join_elems :: "(64 word \<Rightarrow> string) \<Rightarrow> jsval list \<Rightarrow> thrown + string" where
  "ToString N JUndefined = Inr ''undefined''"
| "ToString N JNull = Inr ''null''"
| "ToString N (JBool b) = Inr (if b then ''true'' else ''false'')"
| "ToString N (JNum n) = Inr (N n)"
| "ToString N (JStr s) = Inr s"
| "ToString N (JArr xs) = join_elems N xs"
| "ToString N (JObj ps) =
     (if map_of ps ''toString'' = None then Inr ''[object Object]'' else Inl TypeError)"
| "join_elems N [] = Inr ''''"
| "join_elems N (x # xs) =
     (case (if x = JUndefined \<or> x = JNull then Inr '''' else ToString N x) of
        Inl t \<Rightarrow> Inl t
      | Inr a \<Rightarrow>
          (if xs = [] then Inr a
           else (case join_elems N xs of
                   Inl t \<Rightarrow> Inl t
                 | Inr b \<Rightarrow> Inr (a @ '','' @ b))))"

text \<open>
  A rendering of numbers for the concrete examples below; it agrees with the language on
  the doubles 0 and 1, the only ones the examples convert.
\<close>

definition sample_number_string :: "64 word \<Rightarrow> string" where
  "sample_number_string n = (if n = 0x3FF0000000000000 then ''1'' else ''0'')"

section \<open>The typed model (\<^verbatim>\<open>types.ts\<close>)\<close>

definition E_NOT_CONFIGURED :: string where "E_NOT_CONFIGURED = ''E_NOT_CONFIGURED''"
definition E_INVALID_API_KEY_FORMAT :: string where
  "E_INVALID_API_KEY_FORMAT = ''E_INVALID_API_KEY_FORMAT''"
definition E_INVALID_API_KEY :: string where "E_INVALID_API_KEY = ''E_INVALID_API_KEY''"
definition E_NETWORK_ERROR :: string where "E_NETWORK_ERROR = ''E_NETWORK_ERROR''"
definition E_SERVER_ERROR :: string where "E_SERVER_ERROR = ''E_SERVER_ERROR''"
definition E_INVALID_URL :: string where "E_INVALID_URL = ''E_INVALID_URL''"
definition E_LINK_NOT_FOUND :: string where "E_LINK_NOT_FOUND = ''E_LINK_NOT_FOUND''"
definition E_DECODING_ERROR :: string where "E_DECODING_ERROR = ''E_DECODING_ERROR''"

text \<open>\<^verbatim>\<open>Object.values(ErrorCodes)\<close>.\<close>

definition ErrorCodes_values :: "string list" where
  "ErrorCodes_values =
     [E_NOT_CONFIGURED, E_INVALID_API_KEY_FORMAT, E_INVALID_API_KEY, E_NETWORK_ERROR,
      E_SERVER_ERROR, E_INVALID_URL, E_LINK_NOT_FOUND, E_DECODING_ERROR]"

record WarpLinkError =
  code :: string
  message :: string

text \<open>A \<^verbatim>\<open>WarpLinkError\<close> is an \<^verbatim>\<open>Error\<close> instance; this is the value seen when it is thrown.\<close>

definition throw_WarpLinkError :: "WarpLinkError \<Rightarrow> thrown" where
  "throw_WarpLinkError e = ErrorObj ''WarpLinkError'' (JStr (code e)) (message e)"

record WarpLinkDeepLink =
  linkId :: string
  destination :: string
  deepLinkUrl :: "string option"
  customParams :: jsval
  isDeferred :: bool
  matchType :: "string option"
  matchConfidence :: "64 word option"

record AttributionResult =
  linkId :: string
  matchType :: string
  matchConfidence :: "64 word"
  isDeferred :: bool
  installId :: "string option"

datatype DeepLinkEvent =
    DeepLinkEv WarpLinkDeepLink
  | ErrorEv WarpLinkError

section \<open>Response normalisation (\<^verbatim>\<open>WarpLink.ts\<close>, lines 33 to 93)\<close>

fun deserializeMatchType :: "jsval \<Rightarrow> string option" where
  "deserializeMatchType v =
     (if v = JStr ''deterministic'' \<or> v = JStr ''probabilistic''
      then (case v of JStr s \<Rightarrow> Some s | _ \<Rightarrow> None)
      else None)"

text \<open>
  The object literal evaluates its fields in source order, so the first conversion that
  throws decides the exception. The three conversions with \<^verbatim>\<open>String\<close> are the only
  expressions of the function that can throw.
\<close>

definition deserializeDeepLink ::
  "(64 word \<Rightarrow> string) \<Rightarrow> jsval \<Rightarrow> thrown + WarpLinkDeepLink option" where
  "deserializeDeepLink N raw =
     (if loose_null raw \<or> typeof raw \<noteq> ''object'' then Inr None
      else
        (case ToString N (nullish (getProp raw ''linkId'') (JStr '''')) of
           Inl t \<Rightarrow> Inl t
         | Inr lid \<Rightarrow>
        (case ToString N (nullish (getProp raw ''destination'') (JStr '''')) of
           Inl t \<Rightarrow> Inl t
         | Inr dst \<Rightarrow>
        (case (if \<not> loose_null (getProp raw ''deepLinkUrl'')
               then (case ToString N (getProp raw ''deepLinkUrl'') of
                       Inl t \<Rightarrow> Inl t
                     | Inr u \<Rightarrow> Inr (Some u))
               else Inr None) of
           Inl t \<Rightarrow> Inl t
         | Inr dlu \<Rightarrow>
             Inr (Some \<lparr> WarpLinkDeepLink.linkId = lid,
                         destination = dst,
                         deepLinkUrl = dlu,
                         customParams =
                           (if \<not> loose_null (getProp raw ''customParams'')
                               \<and> typeof (getProp raw ''customParams'') = ''object''
                            then getProp raw ''customParams''
                            else JObj []),
                         WarpLinkDeepLink.isDeferred = ToBoolean (getProp raw ''isDeferred''),
                         WarpLinkDeepLink.matchType =
                           deserializeMatchType (getProp raw ''matchType''),
                         WarpLinkDeepLink.matchConfidence =
                           (case getProp raw ''matchConfidence'' of
                              JNum n \<Rightarrow> Some n
                            | _ \<Rightarrow> None) \<rparr>)))))"

definition deserializeAttributionResult ::
  "(64 word \<Rightarrow> string) \<Rightarrow> jsval \<Rightarrow> thrown + AttributionResult option" where
  "deserializeAttributionResult N raw =
     (if loose_null raw \<or> typeof raw \<noteq> ''object'' then Inr None
      else
        (case deserializeMatchType (getProp raw ''matchType'') of
           None \<Rightarrow> Inr None
         | Some mt \<Rightarrow>
        (case getProp raw ''matchConfidence'' of
           JNum mc \<Rightarrow>
             (case ToString N (nullish (getProp raw ''linkId'') (JStr '''')) of
                Inl t \<Rightarrow> Inl t
              | Inr lid \<Rightarrow>
                  Inr (Some \<lparr> AttributionResult.linkId = lid,
                              AttributionResult.matchType = mt,
                              AttributionResult.matchConfidence = mc,
                              AttributionResult.isDeferred = ToBoolean (getProp raw ''isDeferred''),
                              installId =
                                (case getProp raw ''installId'' of
                                   JStr s \<Rightarrow> Some s
                                 | _ \<Rightarrow> None) \<rparr>))
         | _ \<Rightarrow> Inr None)))"

text \<open>
  The words of the specification: a value "is an object" when it is an array or a plain
  object (null and undefined are not), and a field is "missing" when it is absent or null.
\<close>

fun is_object :: "jsval \<Rightarrow> bool" where
  "is_object (JArr xs) = True"
| "is_object (JObj ps) = True"
| "is_object v = False"

text \<open>
  The values \<^verbatim>\<open>String\<close> converts without throwing: everything but a plain object with an own
  \<^verbatim>\<open>toString\<close> property, and arrays that hold such an object at any depth of array nesting.
\<close>

fun convertible :: "jsval \<Rightarrow> bool" where
  "convertible (JObj ps) = (map_of ps ''toString'' = None)"
| "convertible (JArr xs) = (\<forall>x \<in> set xs. convertible x)"
| "convertible v = True"

section \<open>Error mapping (\<^verbatim>\<open>WarpLink.ts\<close>, lines 17 to 31)\<close>

text \<open>\<^verbatim>\<open>Object.values(ErrorCodes).includes(code)\<close>.\<close>

definition isErrorCode :: "jsval \<Rightarrow> bool" where
  "isErrorCode c = (c \<in> set (map JStr ErrorCodes_values))"

text \<open>
  \<^verbatim>\<open>mapNativeError\<close>: an \<^verbatim>\<open>Error\<close> instance keeps its message and, when its \<^verbatim>\<open>code\<close> is truthy
  and one of the known codes, its code; any other value becomes a server error whose message
  is \<^verbatim>\<open>String(error)\<close>, a conversion that can itself throw.
\<close>

definition mapNativeError :: "(64 word \<Rightarrow> string) \<Rightarrow> thrown \<Rightarrow> thrown + WarpLinkError" where
  "mapNativeError N error =
     (case error of
        ErrorObj nm c m \<Rightarrow>
          Inr \<lparr> code = (if ToBoolean c \<and> isErrorCode c
                         then (case c of JStr s \<Rightarrow> s | _ \<Rightarrow> E_SERVER_ERROR)
                         else E_SERVER_ERROR),
                message = m \<rparr>
      | NonError v \<Rightarrow>
          (case ToString N v of
             Inl t \<Rightarrow> Inl t
           | Inr s \<Rightarrow> Inr \<lparr> code = E_SERVER_ERROR, message = s \<rparr>))"


section \<open>Configuration (\<^verbatim>\<open>WarpLink.ts\<close>, lines 95 and 123 to 147)\<close>

text \<open>
  The regular expression literal \<^verbatim>\<open>/^wl_(live|test)_[a-zA-Z0-9]{32}$/\<close> as a syntax tree, and
  a matcher that, like the backtracking matcher of the language, returns the remainders of
  the input after every way of matching a prefix. The literal has no flags, so \<^verbatim>\<open>^\<close> and
  \<^verbatim>\<open>$\<close> anchor the match at the two ends of the input.
\<close>

datatype regex =
    Lit string
  | Cls "(char \<times> char) list"
  | Alt regex regex
  | Seq regex regex
  | Rep nat regex

text \<open>A character class: the character lies in one of the ranges.\<close>

definition in_class :: "(char \<times> char) list \<Rightarrow> char \<Rightarrow> bool" where
  "in_class rs c = (\<exists>(lo, hi) \<in> set rs. lo \<le> c \<and> c \<le> hi)"

fun rsize :: "regex \<Rightarrow> nat" where
  "rsize (Lit l) = 1"
| "rsize (Cls rs) = 1"
| "rsize (Alt a b) = Suc (rsize a + rsize b)"
| "rsize (Seq a b) = Suc (rsize a + rsize b)"
| "rsize (Rep n r) = Suc (n + rsize r)"

function rmatch :: "regex \<Rightarrow> string \<Rightarrow> string list" where
  "rmatch (Lit l) s = (if take (length l) s = l then [drop (length l) s] else [])"
| "rmatch (Cls rs) s =
     (case s of
        [] \<Rightarrow> []
      | c # t \<Rightarrow> (if in_class rs c then [t] else []))"
| "rmatch (Alt a b) s = rmatch a s @ rmatch b s"
| "rmatch (Seq a b) s = concat (map (rmatch b) (rmatch a s))"
| "rmatch (Rep 0 r) s = [s]"
| "rmatch (Rep (Suc n) r) s = concat (map (rmatch (Rep n r)) (rmatch r s))"
  by pat_completeness auto
termination
  by (relation "measure (\<lambda>(r, s). rsize r)") auto

definition regex_test :: "regex \<Rightarrow> string \<Rightarrow> bool" where
  "regex_test r s = ([] \<in> set (rmatch r s))"

definition API_KEY_PATTERN :: regex where
  "API_KEY_PATTERN =
     Seq (Lit ''wl_'')
       (Seq (Alt (Lit ''live'') (Lit ''test''))
         (Seq (Lit ''_'')
           (Rep 32 (Cls [(CHR ''a'', CHR ''z''), (CHR ''A'', CHR ''Z''), (CHR ''0'', CHR ''9'')]))))"

record WarpLinkConfig =
  apiKey :: string
  apiEndpoint :: "string option"
  debugLogging :: "bool option"
  matchWindowHours :: "64 word option"

definition INVALID_KEY_MESSAGE :: string where
  "INVALID_KEY_MESSAGE =
     ''Invalid API key format. Expected: wl_live_xxx or wl_test_xxx (32 alphanumeric characters after prefix)''"

text \<open>
  The binding \<^verbatim>\<open>NativeWarpLink\<close> (\<^verbatim>\<open>NativeWarpLink.ts\<close>): the native module when React Native
  has one registered under \<^verbatim>\<open>WarpLinkModule\<close>, and otherwise the proxy made by \<^verbatim>\<open>createProxy\<close>,
  every property read of which throws \<^verbatim>\<open>new Error(LINKING_ERROR)\<close>. The message depends on the
  platform through \<^verbatim>\<open>Platform.select\<close>; the proxy carries the message it throws.
\<close>

datatype NativeWarpLink = NativeModule | Proxy string

definition LINKING_ERROR :: "bool \<Rightarrow> string" where
  "LINKING_ERROR ios =
     ''The package '' @ [CHR 0x27] @ ''@warplink/react-native'' @ [CHR 0x27]
     @ '' doesn'' @ [CHR 0x27] @ ''t seem to be linked. Make sure:'' @ [CHR 0x0A, CHR 0x0A]
     @ (if ios then ''- You have run '' @ [CHR 0x27] @ ''pod install'' @ [CHR 0x27] @ [CHR 0x0A]
        else [])
     @ ''- You rebuilt the app after installing the package'' @ [CHR 0x0A]
     @ ''- You are not using Expo Go'' @ [CHR 0x0A]"

definition createProxy :: "bool \<Rightarrow> NativeWarpLink" where
  "createProxy ios = Proxy (LINKING_ERROR ios)"

text \<open>
  \<^verbatim>\<open>configure\<close>, with the calls that reach the native module's \<^verbatim>\<open>configure\<close> kept as a log of
  the configuration objects passed. The result is \<open>Inl\<close> the thrown error or \<open>Inr ()\<close> for a
  normal return. The expression \<^verbatim>\<open>NativeWarpLink.configure(config)\<close> stands outside any \<^verbatim>\<open>try\<close>:
  with the proxy, reading the property throws the linking error out of \<^verbatim>\<open>configure\<close>, and
  nothing is called. The promise returned by the native call is not awaited: its rejection
  never reaches the caller of \<^verbatim>\<open>configure\<close>.
\<close>

definition configure ::
  "NativeWarpLink \<Rightarrow> WarpLinkConfig \<Rightarrow> jsval list \<Rightarrow> (thrown + unit) \<times> jsval list" where
  "configure binding options native_calls =
     (if apiKey options = [] \<or> \<not> regex_test API_KEY_PATTERN (apiKey options)
      then (Inl (throw_WarpLinkError
                  \<lparr> code = E_INVALID_API_KEY_FORMAT, message = INVALID_KEY_MESSAGE \<rparr>),
            native_calls)
      else
        (let config =
               [(''apiKey'', JStr (apiKey options))]
               @ (case apiEndpoint options of
                    None \<Rightarrow> []
                  | Some e \<Rightarrow> [(''apiEndpoint'', JStr e)])
               @ (case debugLogging options of
                    None \<Rightarrow> []
                  | Some d \<Rightarrow> [(''debugLogging'', JBool d)])
               @ (case matchWindowHours options of
                    None \<Rightarrow> []
                  | Some h \<Rightarrow> [(''matchWindowHours'', JNum h)])
         in (case binding of
               Proxy linking_error \<Rightarrow>
                 (Inl (ErrorObj ''Error'' JUndefined linking_error), native_calls)
             | NativeModule \<Rightarrow> (Inr (), native_calls @ [JObj config]))))"

text \<open>The format in the words of the specification.\<close>

definition alphanumerics :: string where
  "alphanumerics =
     ''abcdefghijklmnopqrstuvwxyz'' @ ''ABCDEFGHIJKLMNOPQRSTUVWXYZ'' @ ''0123456789''"

definition spec_key_format :: "string \<Rightarrow> bool" where
  "spec_key_format k =
     (\<exists>env suffix. k = ''wl_'' @ env @ ''_'' @ suffix
        \<and> (env = ''live'' \<or> env = ''test'')
        \<and> length suffix = 32
        \<and> (\<forall>c \<in> set suffix. c \<in> set alphanumerics))"

section \<open>The event multiplexer (\<^verbatim>\<open>WarpLink.ts\<close>, lines 97 to 120 and 210 to 231)\<close>

text \<open>
  The module-level \<^verbatim>\<open>Set\<close> of listeners. A set of the language keeps its entries in
  insertion order, and an iteration in progress observes later changes: \<^verbatim>\<open>delete\<close> empties
  the entry's slot, \<^verbatim>\<open>add\<close> of a value that is not present appends a slot, and the iterator
  walks the slots by index, skipping the empty ones, until it passes the last slot. The set
  is therefore the list of its slots.
\<close>

definition Set_has :: "'a option list \<Rightarrow> 'a \<Rightarrow> bool" where
  "Set_has es x = (Some x \<in> set es)"

definition Set_add :: "'a option list \<Rightarrow> 'a \<Rightarrow> 'a option list" where
  "Set_add es x = (if Set_has es x then es else es @ [Some x])"

definition Set_delete :: "'a option list \<Rightarrow> 'a \<Rightarrow> 'a option list" where
  "Set_delete es x = map (\<lambda>e. if e = Some x then None else e) es"

definition Set_size :: "'a option list \<Rightarrow> nat" where
  "Set_size es = length (filter (\<lambda>e. e \<noteq> None) es)"

text \<open>The members in iteration order.\<close>

definition Set_values :: "'a option list \<Rightarrow> 'a list" where
  "Set_values es = concat (map (\<lambda>e. case e of None \<Rightarrow> [] | Some x \<Rightarrow> [x]) es)"

text \<open>
  A listener is a function of the application, known here by its identity. The state holds
  the three module-level variables of \<^verbatim>\<open>WarpLink.ts\<close> and, around them, what the program
  does to its environment: the handlers registered at the \<^verbatim>\<open>NativeEventEmitter\<close> for
  \<^verbatim>\<open>DEEP_LINK_EVENT\<close> (each registration returns a fresh subscription handle), the URLs passed
  to \<^verbatim>\<open>NativeWarpLink.handleDeepLink\<close> by \<^verbatim>\<open>resolveAndDispatch\<close>, and the listener invocations
  made, in order.
\<close>

type_synonym listener = nat

record multiplexer =
  emitter :: bool
  listeners :: "listener option list"
  nativeSubscription :: "nat option"
  emitter_handlers :: "nat list"
  next_handle :: nat
  resolver_calls :: "string list"
  delivered :: "(listener \<times> DeepLinkEvent) list"

definition initial_multiplexer :: multiplexer where
  "initial_multiplexer =
     \<lparr> emitter = False, listeners = [], nativeSubscription = None, emitter_handlers = [],
       next_handle = 0, resolver_calls = [], delivered = [] \<rparr>"

definition onDeepLink :: "listener \<Rightarrow> multiplexer \<Rightarrow> multiplexer" where
  "onDeepLink l s =
     (let s1 = (if \<not> emitter s then s\<lparr> emitter := True \<rparr> else s);
          s2 = (if nativeSubscription s1 = None
                then s1\<lparr> emitter_handlers := emitter_handlers s1 @ [next_handle s1],
                         nativeSubscription := Some (next_handle s1),
                         next_handle := Suc (next_handle s1) \<rparr>
                else s1)
      in s2\<lparr> listeners := Set_add (listeners s2) l \<rparr>)"

text \<open>The function returned by \<^verbatim>\<open>onDeepLink(l)\<close>, called.\<close>

definition unsubscribe :: "listener \<Rightarrow> multiplexer \<Rightarrow> multiplexer" where
  "unsubscribe l s =
     (let s1 = s\<lparr> listeners := Set_delete (listeners s) l \<rparr>
      in (case nativeSubscription s1 of
            Some h \<Rightarrow>
              (if Set_size (listeners s1) = 0
               then s1\<lparr> emitter_handlers := removeAll h (emitter_handlers s1),
                        nativeSubscription := None \<rparr>
               else s1)
          | None \<Rightarrow> s1))"

text \<open>
  \<^verbatim>\<open>handleNativeDeepLinkEvent\<close> starts \<^verbatim>\<open>resolveAndDispatch\<close>, which runs up to its \<^verbatim>\<open>await\<close>:
  the resolver is called with the URL. A push event of the native side runs every handler
  registered at the emitter.
\<close>

definition handleNativeDeepLinkEvent :: "string \<Rightarrow> multiplexer \<Rightarrow> multiplexer" where
  "handleNativeDeepLinkEvent url s = s\<lparr> resolver_calls := resolver_calls s @ [url] \<rparr>"

definition native_emit :: "string \<Rightarrow> multiplexer \<Rightarrow> multiplexer" where
  "native_emit url s = fold (\<lambda>h. handleNativeDeepLinkEvent url) (emitter_handlers s) s"

text \<open>
  What a listener does when it is called: a sequence of calls back into the multiplexer
  (\<^verbatim>\<open>onDeepLink\<close>, or a function returned by it), after which it returns or throws. The
  behaviour of the application's listeners is a parameter: it may depend on the listener,
  the event and the state in which the listener is called.
\<close>

datatype action = Subscribe listener | Unsubscribe listener

type_synonym behaviour =
  "listener \<Rightarrow> DeepLinkEvent \<Rightarrow> multiplexer \<Rightarrow> action list \<times> thrown option"

fun apply_action :: "action \<Rightarrow> multiplexer \<Rightarrow> multiplexer" where
  "apply_action (Subscribe l) s = onDeepLink l s"
| "apply_action (Unsubscribe l) s = unsubscribe l s"

definition invoke ::
  "behaviour \<Rightarrow> listener \<Rightarrow> DeepLinkEvent \<Rightarrow> multiplexer \<Rightarrow> multiplexer \<times> thrown option" where
  "invoke B l ev s =
     (let s1 = s\<lparr> delivered := delivered s @ [(l, ev)] \<rparr>
      in (fold apply_action (fst (B l ev s1)) s1, snd (B l ev s1)))"

text \<open>
  \<^verbatim>\<open>for (const listener of listeners) listener(ev)\<close>, from slot \<open>i\<close> on. The loop reads the set
  anew at every step and stops at the first listener that throws. Listeners that keep
  subscribing new listeners keep the loop running, so the loop is given fuel, one unit per
  slot visited; \<open>None\<close> means the fuel ran out.
\<close>

fun fanout ::
  "nat \<Rightarrow> behaviour \<Rightarrow> DeepLinkEvent \<Rightarrow> nat \<Rightarrow> multiplexer \<Rightarrow> (thrown option \<times> multiplexer) option"
  where
  "fanout 0 B ev i s = None"
| "fanout (Suc k) B ev i s =
     (if i < length (listeners s)
      then (case listeners s ! i of
              None \<Rightarrow> fanout k B ev (Suc i) s
            | Some l \<Rightarrow>
                (case invoke B l ev s of
                   (s', Some t) \<Rightarrow> Some (Some t, s')
                 | (s', None) \<Rightarrow> fanout k B ev (Suc i) s'))
      else Some (None, s))"


text \<open>How a call of the resolver settles.\<close>

datatype settled = Resolved jsval | Rejected thrown

text \<open>
  The \<^verbatim>\<open>catch\<close> block of \<^verbatim>\<open>resolveAndDispatch\<close>. An exception in it leaves the function: the
  first component of the result is what the promise of \<^verbatim>\<open>resolveAndDispatch\<close> rejects with
  (nobody observes it, the call is prefixed with \<^verbatim>\<open>void\<close>), \<open>None\<close> when it is fulfilled.
\<close>

definition dispatch_error ::
  "(64 word \<Rightarrow> string) \<Rightarrow> nat \<Rightarrow> behaviour \<Rightarrow> thrown \<Rightarrow> multiplexer
     \<Rightarrow> (thrown option \<times> multiplexer) option" where
  "dispatch_error N k B error s =
     (case mapNativeError N error of
        Inl t \<Rightarrow> Some (Some t, s)
      | Inr warpLinkError \<Rightarrow> fanout k B (ErrorEv warpLinkError) 0 s)"

text \<open>
  \<^verbatim>\<open>resolveAndDispatch\<close> from its \<^verbatim>\<open>await\<close> on, when the resolver's promise has settled. The
  \<^verbatim>\<open>try\<close> block covers the normalisation and the first loop, so an exception of either
  enters the \<^verbatim>\<open>catch\<close> block.
\<close>

definition resolveAndDispatch_settled ::
  "(64 word \<Rightarrow> string) \<Rightarrow> nat \<Rightarrow> behaviour \<Rightarrow> settled \<Rightarrow> multiplexer
     \<Rightarrow> (thrown option \<times> multiplexer) option" where
  "resolveAndDispatch_settled N k B result s =
     (case result of
        Rejected error \<Rightarrow> dispatch_error N k B error s
      | Resolved raw \<Rightarrow>
          (case deserializeDeepLink N raw of
             Inl t \<Rightarrow> dispatch_error N k B t s
           | Inr None \<Rightarrow> Some (None, s)
           | Inr (Some deepLink) \<Rightarrow>
               (case fanout k B (DeepLinkEv deepLink) 0 s of
                  None \<Rightarrow> None
                | Some (Some t, s') \<Rightarrow> dispatch_error N k B t s'
                | Some (None, s') \<Rightarrow> Some (None, s'))))"

text \<open>Sequences of subscriptions, unsubscriptions and push events.\<close>

datatype mux_op = OnDeepLink listener | Unsub listener | NativeEvent string

fun mux_step :: "mux_op \<Rightarrow> multiplexer \<Rightarrow> multiplexer" where
  "mux_step (OnDeepLink l) s = onDeepLink l s"
| "mux_step (Unsub l) s = unsubscribe l s"
| "mux_step (NativeEvent url) s = native_emit url s"

definition mux_run :: "mux_op list \<Rightarrow> multiplexer \<Rightarrow> multiplexer" where
  "mux_run ops s = fold mux_step ops s"

text \<open>A listener that neither calls back into the multiplexer nor throws.\<close>

definition quiet :: behaviour where
  "quiet l ev s = ([], None)"

text \<open>The listener of the examples that, on any event, unsubscribes listener 2.\<close>

definition first_removes_second :: behaviour where
  "first_removes_second l ev s = (if l = 1 then ([Unsubscribe 2], None) else ([], None))"

text \<open>
  The invariant of the multiplexer: a subscription is held exactly when there is a
  listener; the emitter has exactly the handler of the subscription held, and none when none
  is held; no listener is in the set twice.
\<close>

definition mux_inv :: "multiplexer \<Rightarrow> bool" where
  "mux_inv s =
     ((nativeSubscription s \<noteq> None) = (Set_values (listeners s) \<noteq> [])
      \<and> emitter_handlers s = (case nativeSubscription s of None \<Rightarrow> [] | Some h \<Rightarrow> [h])
      \<and> distinct (Set_values (listeners s)))"

section \<open>Cold-start retrieval (\<^verbatim>\<open>WarpLink.ts\<close>, lines 149 to 156 and 233 to 243)\<close>
















section \<open>Properties of the normaliser\<close>

lemma typeof_object_iff: "(\<not> loose_null v \<and> typeof v = ''object'') = is_object v"
  by (cases v) (simp_all add: loose_null_def)

lemma ToString_convertible:
  "(\<exists>s. ToString N v = Inr s) = convertible v"
  "(\<exists>s. join_elems N vs = Inr s) = (\<forall>x \<in> set vs. convertible x)"
proof (induction N v and N vs rule: ToString_join_elems.induct)
  case (9 N x xs)
  show ?case
  proof (cases "x = JUndefined \<or> x = JNull")
    case True
    with 9 show ?thesis
      by (cases "join_elems N xs") auto
  next
    case False
    with 9 show ?thesis
      by (cases "ToString N x"; cases "join_elems N xs") auto
  qed
qed simp_all

lemma ToString_throws: "\<not> convertible v \<Longrightarrow> \<exists>t. ToString N v = Inl t"
  using ToString_convertible(1) [of N v] by (cases "ToString N v") auto

lemma convertible_nullish:
  "convertible (nullish v (JStr s)) = convertible v"
  by (cases v) (simp_all add: nullish_def loose_null_def)

lemma getProp_is_object: "getProp raw k \<noteq> JUndefined \<Longrightarrow> is_object raw"
  by (cases raw) simp_all

lemma deserializeDeepLink_null_iff:
  "(deserializeDeepLink N raw = Inr None) = (\<not> is_object raw)"
  using typeof_object_iff [of raw]
  by (auto simp: deserializeDeepLink_def split: sum.splits if_splits)

lemma deserializeDeepLink_object:
  assumes "is_object raw"
    and "ToString N (nullish (getProp raw ''linkId'') (JStr '''')) = Inr lid"
    and "ToString N (nullish (getProp raw ''destination'') (JStr '''')) = Inr dst"
    and "ToString N (getProp raw ''deepLinkUrl'') = Inr u"
  shows "deserializeDeepLink N raw =
     Inr (Some \<lparr> WarpLinkDeepLink.linkId = lid,
                 destination = dst,
                 deepLinkUrl = (if loose_null (getProp raw ''deepLinkUrl'') then None else Some u),
                 customParams =
                   (if is_object (getProp raw ''customParams'') then getProp raw ''customParams''
                    else JObj []),
                 WarpLinkDeepLink.isDeferred = ToBoolean (getProp raw ''isDeferred''),
                 WarpLinkDeepLink.matchType = deserializeMatchType (getProp raw ''matchType''),
                 WarpLinkDeepLink.matchConfidence =
                   (case getProp raw ''matchConfidence'' of JNum n \<Rightarrow> Some n | _ \<Rightarrow> None) \<rparr>)"
  using assms typeof_object_iff [of raw] typeof_object_iff [of "getProp raw ''customParams''"]
  by (auto simp: deserializeDeepLink_def)

lemma deserializeDeepLink_throws:
  assumes "is_object raw"
    and "\<not> (convertible (getProp raw ''linkId'')
            \<and> convertible (getProp raw ''destination'')
            \<and> convertible (getProp raw ''deepLinkUrl''))"
  shows "\<exists>t. deserializeDeepLink N raw = Inl t"
proof -
  have obj: "\<not> (loose_null raw \<or> typeof raw \<noteq> ''object'')"
    using assms(1) typeof_object_iff [of raw] by auto
  consider (a) "\<not> convertible (getProp raw ''linkId'')"
    | (b) "\<not> convertible (getProp raw ''destination'')"
    | (c) "\<not> convertible (getProp raw ''deepLinkUrl'')"
    using assms(2) by blast
  then show ?thesis
  proof cases
    case a
    then obtain t where "ToString N (nullish (getProp raw ''linkId'') (JStr '''')) = Inl t"
      using ToString_throws [of "nullish (getProp raw ''linkId'') (JStr '''')" N]
      by (auto simp: convertible_nullish)
    with obj show ?thesis by (simp add: deserializeDeepLink_def)
  next
    case b
    then obtain t where "ToString N (nullish (getProp raw ''destination'') (JStr '''')) = Inl t"
      using ToString_throws [of "nullish (getProp raw ''destination'') (JStr '''')" N]
      by (auto simp: convertible_nullish)
    with obj show ?thesis by (simp add: deserializeDeepLink_def split: sum.splits)
  next
    case c
    then obtain t where t: "ToString N (getProp raw ''deepLinkUrl'') = Inl t"
      using ToString_throws [of "getProp raw ''deepLinkUrl''" N] by auto
    from c have "\<not> loose_null (getProp raw ''deepLinkUrl'')"
      by (auto simp: loose_null_def)
    with obj t show ?thesis by (simp add: deserializeDeepLink_def split: sum.splits)
  qed
qed

text \<open>
  Claim C5, as the code has it. For every input value, \<^verbatim>\<open>deserializeDeepLink\<close> returns null
  exactly when the input is not an object. For an object input whose \<^verbatim>\<open>linkId\<close>,
  \<^verbatim>\<open>destination\<close> and \<^verbatim>\<open>deepLinkUrl\<close> are values that \<^verbatim>\<open>String\<close> converts, it returns a link with
  every field present: \<^verbatim>\<open>linkId\<close> and \<^verbatim>\<open>destination\<close> are the string conversions of the fields,
  the empty string standing in for a missing one; \<^verbatim>\<open>deepLinkUrl\<close> is null for a missing field
  and the string conversion otherwise; \<^verbatim>\<open>customParams\<close> is the field when it is an object and
  the empty object otherwise; \<^verbatim>\<open>matchType\<close> is the field when it is one of the two literals and
  null otherwise; \<^verbatim>\<open>matchConfidence\<close> is the field when it is a number and null otherwise. For
  an object input one of whose three string fields cannot be converted, the function throws.
\<close>

theorem deserializeDeepLink_complete_or_null:
  "(deserializeDeepLink N raw = Inr None) = (\<not> is_object raw)
   \<and> (is_object raw
        \<and> convertible (getProp raw ''linkId'')
        \<and> convertible (getProp raw ''destination'')
        \<and> convertible (getProp raw ''deepLinkUrl'')
      \<longrightarrow> (\<exists>r. deserializeDeepLink N raw = Inr (Some r)
             \<and> ToString N (nullish (getProp raw ''linkId'') (JStr '''')) = Inr (WarpLinkDeepLink.linkId r)
             \<and> ToString N (nullish (getProp raw ''destination'') (JStr '''')) = Inr (destination r)
             \<and> deepLinkUrl r =
                 (if loose_null (getProp raw ''deepLinkUrl'') then None
                  else (case ToString N (getProp raw ''deepLinkUrl'') of
                          Inr u \<Rightarrow> Some u
                        | Inl t \<Rightarrow> None))
             \<and> customParams r =
                 (if is_object (getProp raw ''customParams'') then getProp raw ''customParams''
                  else JObj [])
             \<and> WarpLinkDeepLink.isDeferred r = ToBoolean (getProp raw ''isDeferred'')
             \<and> WarpLinkDeepLink.matchType r =
                 (if getProp raw ''matchType'' = JStr ''deterministic'' then Some ''deterministic''
                  else if getProp raw ''matchType'' = JStr ''probabilistic'' then Some ''probabilistic''
                  else None)
             \<and> WarpLinkDeepLink.matchConfidence r =
                 (case getProp raw ''matchConfidence'' of JNum n \<Rightarrow> Some n | _ \<Rightarrow> None)))
   \<and> (is_object raw
        \<and> \<not> (convertible (getProp raw ''linkId'')
              \<and> convertible (getProp raw ''destination'')
              \<and> convertible (getProp raw ''deepLinkUrl''))
      \<longrightarrow> (\<exists>t. deserializeDeepLink N raw = Inl t))"
proof -
  have good: "\<exists>r. deserializeDeepLink N raw = Inr (Some r)
             \<and> ToString N (nullish (getProp raw ''linkId'') (JStr '''')) = Inr (WarpLinkDeepLink.linkId r)
             \<and> ToString N (nullish (getProp raw ''destination'') (JStr '''')) = Inr (destination r)
             \<and> deepLinkUrl r =
                 (if loose_null (getProp raw ''deepLinkUrl'') then None
                  else (case ToString N (getProp raw ''deepLinkUrl'') of
                          Inr u \<Rightarrow> Some u
                        | Inl t \<Rightarrow> None))
             \<and> customParams r =
                 (if is_object (getProp raw ''customParams'') then getProp raw ''customParams''
                  else JObj [])
             \<and> WarpLinkDeepLink.isDeferred r = ToBoolean (getProp raw ''isDeferred'')
             \<and> WarpLinkDeepLink.matchType r =
                 (if getProp raw ''matchType'' = JStr ''deterministic'' then Some ''deterministic''
                  else if getProp raw ''matchType'' = JStr ''probabilistic'' then Some ''probabilistic''
                  else None)
             \<and> WarpLinkDeepLink.matchConfidence r =
                 (case getProp raw ''matchConfidence'' of JNum n \<Rightarrow> Some n | _ \<Rightarrow> None)"
    if a: "is_object raw
        \<and> convertible (getProp raw ''linkId'')
        \<and> convertible (getProp raw ''destination'')
        \<and> convertible (getProp raw ''deepLinkUrl'')"
  proof -
    from a obtain lid where lid: "ToString N (nullish (getProp raw ''linkId'') (JStr '''')) = Inr lid"
      using ToString_convertible(1) [of N "nullish (getProp raw ''linkId'') (JStr '''')"]
      by (auto simp: convertible_nullish)
    from a obtain dst where dst: "ToString N (nullish (getProp raw ''destination'') (JStr '''')) = Inr dst"
      using ToString_convertible(1) [of N "nullish (getProp raw ''destination'') (JStr '''')"]
      by (auto simp: convertible_nullish)
    from a obtain u where u: "ToString N (getProp raw ''deepLinkUrl'') = Inr u"
      using ToString_convertible(1) [of N "getProp raw ''deepLinkUrl''"] by auto
    from a have obj: "is_object raw" by simp
    show ?thesis
      using deserializeDeepLink_object [OF obj lid dst u] lid dst u by auto
  qed
  have bad: "\<exists>t. deserializeDeepLink N raw = Inl t"
    if "is_object raw
        \<and> \<not> (convertible (getProp raw ''linkId'')
              \<and> convertible (getProp raw ''destination'')
              \<and> convertible (getProp raw ''deepLinkUrl''))"
    using that deserializeDeepLink_throws [of raw N] by blast
  from good bad deserializeDeepLink_null_iff [of N raw] show ?thesis by blast
qed

theorem deserializeDeepLink_complete_or_null_witness:
  "is_object (JObj [(''customParams'', JNull), (''matchType'', JStr ''unknown''),
                    (''matchConfidence'', JStr ''0.5'')])
   \<and> deserializeDeepLink sample_number_string
       (JObj [(''customParams'', JNull), (''matchType'', JStr ''unknown''),
              (''matchConfidence'', JStr ''0.5'')])
     = Inr (Some \<lparr> WarpLinkDeepLink.linkId = '''', destination = '''', deepLinkUrl = None,
                   customParams = JObj [], WarpLinkDeepLink.isDeferred = False,
                   WarpLinkDeepLink.matchType = None, WarpLinkDeepLink.matchConfidence = None \<rparr>)
   \<and> deserializeDeepLink sample_number_string (JStr ''abc'') = Inr None
   \<and> (\<exists>t. deserializeDeepLink sample_number_string
             (JObj [(''deepLinkUrl'', JArr [JObj [(''toString'', JBool True)]])]) = Inl t)"
  using deserializeDeepLink_complete_or_null
          [of sample_number_string
              "JObj [(''customParams'', JNull), (''matchType'', JStr ''unknown''),
                     (''matchConfidence'', JStr ''0.5'')]"]
        deserializeDeepLink_complete_or_null [of sample_number_string "JStr ''abc''"]
        deserializeDeepLink_complete_or_null
          [of sample_number_string "JObj [(''deepLinkUrl'', JArr [JObj [(''toString'', JBool True)]])]"]
  by (auto simp: loose_null_def nullish_def)

text \<open>
  Claim C5 as written says the function never throws. It throws on the object whose
  \<^verbatim>\<open>linkId\<close> is the object \<^verbatim>\<open>{ toString: 0 }\<close>.
\<close>

theorem deserializeDeepLink_throws_on_linkId_object:
  "deserializeDeepLink sample_number_string (JObj [(''linkId'', JObj [(''toString'', JNum 0)])])
   = Inl TypeError"
  by (simp add: deserializeDeepLink_def loose_null_def nullish_def)

text \<open>
  Claim C6. \<^verbatim>\<open>deserializeAttributionResult\<close> returns null when the input is not an object,
  when its \<^verbatim>\<open>matchType\<close> is neither of the two literals, or when its \<^verbatim>\<open>matchConfidence\<close> is not
  a number; and a result that is not null comes from an object input, carries one of the two
  literals as \<^verbatim>\<open>matchType\<close>, the very one of the input, and carries the number of the input as
  \<^verbatim>\<open>matchConfidence\<close>.
\<close>

theorem deserializeAttributionResult_strict:
  "(\<not> is_object raw
      \<or> (getProp raw ''matchType'' \<noteq> JStr ''deterministic''
          \<and> getProp raw ''matchType'' \<noteq> JStr ''probabilistic'')
      \<or> typeof (getProp raw ''matchConfidence'') \<noteq> ''number''
    \<longrightarrow> deserializeAttributionResult N raw = Inr None)
   \<and> (\<forall>r. deserializeAttributionResult N raw = Inr (Some r)
        \<longrightarrow> is_object raw
            \<and> (AttributionResult.matchType r = ''deterministic''
                 \<or> AttributionResult.matchType r = ''probabilistic'')
            \<and> getProp raw ''matchType'' = JStr (AttributionResult.matchType r)
            \<and> getProp raw ''matchConfidence'' = JNum (AttributionResult.matchConfidence r))"
proof -
  have A: "deserializeAttributionResult N raw = Inr None"
    if "\<not> is_object raw
      \<or> (getProp raw ''matchType'' \<noteq> JStr ''deterministic''
          \<and> getProp raw ''matchType'' \<noteq> JStr ''probabilistic'')
      \<or> typeof (getProp raw ''matchConfidence'') \<noteq> ''number''"
    using that typeof_object_iff [of raw]
    by (cases "getProp raw ''matchConfidence''")
       (auto simp: deserializeAttributionResult_def split: option.splits)
  have B: "is_object raw
            \<and> (AttributionResult.matchType r = ''deterministic''
                 \<or> AttributionResult.matchType r = ''probabilistic'')
            \<and> getProp raw ''matchType'' = JStr (AttributionResult.matchType r)
            \<and> getProp raw ''matchConfidence'' = JNum (AttributionResult.matchConfidence r)"
    if "deserializeAttributionResult N raw = Inr (Some r)" for r
    using that typeof_object_iff [of raw]
    by (cases "getProp raw ''matchConfidence''")
       (auto simp: deserializeAttributionResult_def split: if_splits option.splits sum.splits)
  from A B show ?thesis by blast
qed

theorem deserializeAttributionResult_strict_witness:
  "typeof (getProp (JObj [(''matchType'', JStr ''deterministic'')]) ''matchConfidence'') \<noteq> ''number''
   \<and> deserializeAttributionResult sample_number_string
      (JObj [(''matchType'', JStr ''deterministic'')]) = Inr None
   \<and> deserializeAttributionResult sample_number_string
      (JObj [(''matchType'', JStr ''probabilistic''), (''matchConfidence'', JNum 0)])
      = Inr (Some \<lparr> AttributionResult.linkId = '''', AttributionResult.matchType = ''probabilistic'',
                    AttributionResult.matchConfidence = 0, AttributionResult.isDeferred = False,
                    installId = None \<rparr>)
   \<and> getProp (JObj [(''matchType'', JStr ''probabilistic''), (''matchConfidence'', JNum 0)]) ''matchType''
       = JStr ''probabilistic''"
  using deserializeAttributionResult_strict
          [of "JObj [(''matchType'', JStr ''deterministic'')]" sample_number_string]
        deserializeAttributionResult_strict
          [of "JObj [(''matchType'', JStr ''probabilistic''), (''matchConfidence'', JNum 0)]"
              sample_number_string]
  by (simp add: deserializeAttributionResult_def loose_null_def nullish_def)

text \<open>
  Claim C7, as the code has it. For every raw link payload whose \<^verbatim>\<open>matchConfidence\<close> is the
  number 0.0 and whose \<^verbatim>\<open>linkId\<close>, \<^verbatim>\<open>destination\<close> and \<^verbatim>\<open>deepLinkUrl\<close> are values that \<^verbatim>\<open>String\<close>
  converts, \<^verbatim>\<open>deserializeDeepLink\<close> returns a link whose \<^verbatim>\<open>matchConfidence\<close> is the number 0.0,
  not null.
\<close>

theorem deserializeDeepLink_zero_confidence:
  assumes "getProp raw ''matchConfidence'' = JNum 0"
    and "convertible (getProp raw ''linkId'')"
    and "convertible (getProp raw ''destination'')"
    and "convertible (getProp raw ''deepLinkUrl'')"
  shows "\<exists>r. deserializeDeepLink N raw = Inr (Some r)
            \<and> WarpLinkDeepLink.matchConfidence r = Some 0"
proof -
  have obj: "is_object raw"
    using assms(1) getProp_is_object [of raw "''matchConfidence''"] by simp
  obtain lid where lid: "ToString N (nullish (getProp raw ''linkId'') (JStr '''')) = Inr lid"
    using assms(2) ToString_convertible(1) [of N "nullish (getProp raw ''linkId'') (JStr '''')"]
    by (auto simp: convertible_nullish)
  obtain dst where dst: "ToString N (nullish (getProp raw ''destination'') (JStr '''')) = Inr dst"
    using assms(3) ToString_convertible(1) [of N "nullish (getProp raw ''destination'') (JStr '''')"]
    by (auto simp: convertible_nullish)
  obtain u where u: "ToString N (getProp raw ''deepLinkUrl'') = Inr u"
    using assms(4) ToString_convertible(1) [of N "getProp raw ''deepLinkUrl''"] by auto
  show ?thesis
    using deserializeDeepLink_object [OF obj lid dst u] assms(1) by simp
qed

theorem deserializeDeepLink_zero_confidence_witness:
  "getProp (JObj [(''linkId'', JStr ''abc''), (''matchConfidence'', JNum 0)]) ''matchConfidence'' = JNum 0
   \<and> convertible (getProp (JObj [(''linkId'', JStr ''abc''), (''matchConfidence'', JNum 0)]) ''linkId'')
   \<and> (\<exists>r. deserializeDeepLink sample_number_string
             (JObj [(''linkId'', JStr ''abc''), (''matchConfidence'', JNum 0)]) = Inr (Some r)
          \<and> WarpLinkDeepLink.matchConfidence r = Some 0)"
  using deserializeDeepLink_zero_confidence
          [of "JObj [(''linkId'', JStr ''abc''), (''matchConfidence'', JNum 0)]" sample_number_string]
  by simp

text \<open>
  Claim C7 as written covers every payload with \<^verbatim>\<open>matchConfidence\<close> 0.0. On the payload
  \<^verbatim>\<open>{ matchConfidence: 0.0, destination: { toString: null } }\<close> no link is returned: the
  function throws.
\<close>

theorem deserializeDeepLink_zero_confidence_throws:
  "deserializeDeepLink sample_number_string
     (JObj [(''matchConfidence'', JNum 0), (''destination'', JObj [(''toString'', JNull)])])
   = Inl TypeError"
  by (simp add: deserializeDeepLink_def loose_null_def nullish_def)

section \<open>Properties of the configuration\<close>

lemma map_of_char_alphanumerics:
  "map of_char alphanumerics = ([97..<123] @ [65..<91] @ [48..<58] :: nat list)"
  by code_simp

lemma alnum_class:
  "in_class [(CHR ''a'', CHR ''z''), (CHR ''A'', CHR ''Z''), (CHR ''0'', CHR ''9'')] c
     = (c \<in> set alphanumerics)"
proof -
  define n where "n = (of_char c :: nat)"
  have mem: "(c \<in> set alphanumerics) = (n \<in> of_char ` set alphanumerics)"
    unfolding n_def by (rule inj_image_mem_iff [symmetric]) (simp add: inj_on_def)
  have "(of_char ` set alphanumerics :: nat set) = set (map of_char alphanumerics)"
    by simp
  also have "\<dots> = set ([97..<123] @ [65..<91] @ [48..<58] :: nat list)"
    by (simp only: map_of_char_alphanumerics)
  finally have img: "(n \<in> (of_char ` set alphanumerics :: nat set))
     = (97 \<le> n \<and> n \<le> 122 \<or> 65 \<le> n \<and> n \<le> 90 \<or> 48 \<le> n \<and> n \<le> 57)"
    by (simp only: set_append set_upt Un_iff atLeastLessThan_iff) arith
  have rng: "in_class [(CHR ''a'', CHR ''z''), (CHR ''A'', CHR ''Z''), (CHR ''0'', CHR ''9'')] c
     = (97 \<le> n \<and> n \<le> 122 \<or> 65 \<le> n \<and> n \<le> 90 \<or> 48 \<le> n \<and> n \<le> 57)"
    by (simp add: in_class_def less_eq_char_def flip: n_def)
  show ?thesis using mem rng img by simp
qed

lemma rmatch_Rep_Cls:
  "rmatch (Rep n (Cls rs)) s =
     (if n \<le> length s \<and> (\<forall>c \<in> set (take n s). in_class rs c) then [drop n s] else [])"
proof (induction n arbitrary: s)
  case 0
  show ?case by simp
next
  case (Suc n)
  show ?case
  proof (cases s)
    case Nil
    then show ?thesis by simp
  next
    case (Cons c t)
    show ?thesis
    proof (cases "in_class rs c")
      case True
      with Cons Suc [of t] show ?thesis by simp
    next
      case False
      with Cons show ?thesis by simp
    qed
  qed
qed

lemma in_rmatch_Lit: "(r \<in> set (rmatch (Lit l) s)) = (s = l @ r)"
proof
  assume "r \<in> set (rmatch (Lit l) s)"
  then have "take (length l) s = l" "r = drop (length l) s"
    by (auto split: if_splits)
  then show "s = l @ r"
    using append_take_drop_id [of "length l" s] by simp
next
  assume "s = l @ r"
  then show "r \<in> set (rmatch (Lit l) s)" by simp
qed

lemma in_rmatch_Alt:
  "(r \<in> set (rmatch (Alt a b) s)) = (r \<in> set (rmatch a s) \<or> r \<in> set (rmatch b s))"
  by simp

lemma in_rmatch_Seq:
  "(r \<in> set (rmatch (Seq a b) s)) = (\<exists>m. m \<in> set (rmatch a s) \<and> r \<in> set (rmatch b m))"
  by auto

lemma in_rmatch_Rep_Cls:
  "(r \<in> set (rmatch (Rep n (Cls rs)) s))
     = (\<exists>t. s = t @ r \<and> length t = n \<and> (\<forall>c \<in> set t. in_class rs c))"
proof
  assume "r \<in> set (rmatch (Rep n (Cls rs)) s)"
  then have "n \<le> length s" "\<forall>c \<in> set (take n s). in_class rs c" "r = drop n s"
    by (auto simp: rmatch_Rep_Cls split: if_splits)
  then have "s = take n s @ r \<and> length (take n s) = n \<and> (\<forall>c \<in> set (take n s). in_class rs c)"
    by simp
  then show "\<exists>t. s = t @ r \<and> length t = n \<and> (\<forall>c \<in> set t. in_class rs c)" by blast
next
  assume "\<exists>t. s = t @ r \<and> length t = n \<and> (\<forall>c \<in> set t. in_class rs c)"
  then show "r \<in> set (rmatch (Rep n (Cls rs)) s)"
    by (auto simp: rmatch_Rep_Cls)
qed

lemma regex_test_unfolded:
  "regex_test API_KEY_PATTERN k =
     (\<exists>m1. k = ''wl_'' @ m1 \<and>
        (\<exists>m2. (m1 = ''live'' @ m2 \<or> m1 = ''test'' @ m2) \<and>
           (\<exists>m3. m2 = ''_'' @ m3 \<and>
              (\<exists>t. m3 = t @ [] \<and> length t = 32 \<and> (\<forall>c \<in> set t. c \<in> set alphanumerics)))))"
  unfolding regex_test_def API_KEY_PATTERN_def
  by (simp only: in_rmatch_Seq in_rmatch_Lit in_rmatch_Alt in_rmatch_Rep_Cls alnum_class)

lemma regex_test_iff_spec: "regex_test API_KEY_PATTERN k = spec_key_format k"
proof
  assume "regex_test API_KEY_PATTERN k"
  then obtain m1 m2 t where k: "k = ''wl_'' @ m1"
    and m1: "m1 = ''live'' @ m2 \<or> m1 = ''test'' @ m2"
    and m2: "m2 = ''_'' @ t"
    and t: "length t = 32" "\<forall>c \<in> set t. c \<in> set alphanumerics"
    unfolding regex_test_unfolded by auto
  from m1 show "spec_key_format k"
  proof
    assume "m1 = ''live'' @ m2"
    with k m2 have "k = ''wl_'' @ ''live'' @ ''_'' @ t" by simp
    with t show ?thesis unfolding spec_key_format_def by blast
  next
    assume "m1 = ''test'' @ m2"
    with k m2 have "k = ''wl_'' @ ''test'' @ ''_'' @ t" by simp
    with t show ?thesis unfolding spec_key_format_def by blast
  qed
next
  assume "spec_key_format k"
  then obtain env suffix where k: "k = ''wl_'' @ env @ ''_'' @ suffix"
    and env: "env = ''live'' \<or> env = ''test''"
    and suf: "length suffix = 32" "\<forall>c \<in> set suffix. c \<in> set alphanumerics"
    unfolding spec_key_format_def by blast
  have "\<exists>m2. (env @ ''_'' @ suffix = ''live'' @ m2 \<or> env @ ''_'' @ suffix = ''test'' @ m2) \<and>
           (\<exists>m3. m2 = ''_'' @ m3 \<and>
              (\<exists>t. m3 = t @ [] \<and> length t = 32 \<and> (\<forall>c \<in> set t. c \<in> set alphanumerics)))"
    using env suf by (intro exI [of _ "''_'' @ suffix"]) auto
  with k show "regex_test API_KEY_PATTERN k"
    unfolding regex_test_unfolded by blast
qed

lemma spec_key_format_nonempty: "spec_key_format k \<Longrightarrow> k \<noteq> []"
  unfolding spec_key_format_def by auto

text \<open>
  Claim C3, as the code has it. \<^verbatim>\<open>configure\<close> throws the typed error with code
  \<^verbatim>\<open>E_INVALID_API_KEY_FORMAT\<close> exactly when the key does not have the format: the letters
  \<^verbatim>\<open>wl_\<close>, then \<^verbatim>\<open>live\<close> or \<^verbatim>\<open>test\<close>, an underscore, and exactly 32 characters out of
  \<^verbatim>\<open>[a-zA-Z0-9]\<close>; it throws it whether or not the native module is linked, and no call has
  been made to the native module. For a key of that format, \<^verbatim>\<open>configure\<close> returns without an
  error when the native module is linked, having passed it one configuration object that
  holds the key; when the native module is not linked it throws the linking error, an
  \<^verbatim>\<open>Error\<close> without a code, and no call has been made.
\<close>

theorem configure_key_format:
  "(\<exists>m. fst (configure binding options native_calls) =
           Inl (throw_WarpLinkError \<lparr> code = E_INVALID_API_KEY_FORMAT, message = m \<rparr>))
      = (\<not> spec_key_format (apiKey options))
   \<and> (\<not> spec_key_format (apiKey options)
        \<longrightarrow> configure binding options native_calls =
              (Inl (throw_WarpLinkError
                     \<lparr> code = E_INVALID_API_KEY_FORMAT, message = INVALID_KEY_MESSAGE \<rparr>),
               native_calls))
   \<and> (spec_key_format (apiKey options)
        \<longrightarrow> fst (configure NativeModule options native_calls) = Inr ()
            \<and> (\<exists>config. snd (configure NativeModule options native_calls) = native_calls @ [config]
                  \<and> getProp config ''apiKey'' = JStr (apiKey options)))
   \<and> (spec_key_format (apiKey options)
        \<longrightarrow> configure (Proxy linking_error) options native_calls =
              (Inl (ErrorObj ''Error'' JUndefined linking_error), native_calls))"
proof (cases "spec_key_format (apiKey options)")
  case True
  then have "apiKey options \<noteq> []" "regex_test API_KEY_PATTERN (apiKey options)"
    using spec_key_format_nonempty regex_test_iff_spec by auto
  with True show ?thesis
    by (cases binding) (simp_all add: configure_def Let_def throw_WarpLinkError_def)
next
  case False
  then have "\<not> regex_test API_KEY_PATTERN (apiKey options)"
    using regex_test_iff_spec by simp
  with False show ?thesis
    by (auto simp: configure_def)
qed

theorem configure_key_format_witness:
  "spec_key_format ''wl_live_abcdefghijklmnopqrstuvwxyz012345''
   \<and> configure NativeModule
        \<lparr> apiKey = ''wl_live_abcdefghijklmnopqrstuvwxyz012345'', apiEndpoint = None,
          debugLogging = Some True, matchWindowHours = None \<rparr> []
     = (Inr (), [JObj [(''apiKey'', JStr ''wl_live_abcdefghijklmnopqrstuvwxyz012345''),
                       (''debugLogging'', JBool True)]])
   \<and> configure (Proxy ''not linked'')
        \<lparr> apiKey = ''wl_live_abcdefghijklmnopqrstuvwxyz012345'', apiEndpoint = None,
          debugLogging = Some True, matchWindowHours = None \<rparr> []
     = (Inl (ErrorObj ''Error'' JUndefined ''not linked''), [])
   \<and> \<not> spec_key_format ''wl_prod_abcdefghijklmnopqrstuvwxyz012345''
   \<and> configure NativeModule
        \<lparr> apiKey = ''wl_prod_abcdefghijklmnopqrstuvwxyz012345'', apiEndpoint = None,
          debugLogging = None, matchWindowHours = None \<rparr> []
     = (Inl (ErrorObj ''WarpLinkError'' (JStr ''E_INVALID_API_KEY_FORMAT'') INVALID_KEY_MESSAGE), [])
   \<and> \<not> spec_key_format ''wl_test_abcdefghijklmnopqrstuvwxyz01234''
   \<and> \<not> spec_key_format ''wl_test_abcdefghijklmnopqrstuvwxyz0123456''
   \<and> \<not> spec_key_format ''wl_test_abcdefghijklmnopqrstuvwxyz-12345''"
proof -
  have good: "regex_test API_KEY_PATTERN ''wl_live_abcdefghijklmnopqrstuvwxyz012345''"
    by code_simp
  have bad: "\<not> regex_test API_KEY_PATTERN ''wl_prod_abcdefghijklmnopqrstuvwxyz012345''"
    by code_simp
  have short: "\<not> regex_test API_KEY_PATTERN ''wl_test_abcdefghijklmnopqrstuvwxyz01234''"
    by code_simp
  have long: "\<not> regex_test API_KEY_PATTERN ''wl_test_abcdefghijklmnopqrstuvwxyz0123456''"
    by code_simp
  have special: "\<not> regex_test API_KEY_PATTERN ''wl_test_abcdefghijklmnopqrstuvwxyz-12345''"
    by code_simp
  show ?thesis
    using configure_key_format
            [of NativeModule
                "\<lparr> apiKey = ''wl_live_abcdefghijklmnopqrstuvwxyz012345'', apiEndpoint = None,
                    debugLogging = Some True, matchWindowHours = None \<rparr>" "[]" "''not linked''"]
          configure_key_format
            [of NativeModule
                "\<lparr> apiKey = ''wl_prod_abcdefghijklmnopqrstuvwxyz012345'', apiEndpoint = None,
                    debugLogging = None, matchWindowHours = None \<rparr>" "[]" "''not linked''"]
          good bad short long special
    by (simp add: regex_test_iff_spec configure_def throw_WarpLinkError_def
          E_INVALID_API_KEY_FORMAT_def)
qed

text \<open>
  Claim C3 as written has \<^verbatim>\<open>configure\<close> return without an error for every key of the format.
  When the native module is not linked, \<^verbatim>\<open>configure\<close> with the key \<^verbatim>\<open>wl_live_\<close> followed by 32
  letters and digits throws the linking error.
\<close>

theorem configure_not_linked_throws:
  "configure (createProxy False)
     \<lparr> apiKey = ''wl_live_abcdefghijklmnopqrstuvwxyz012345'', apiEndpoint = None,
       debugLogging = None, matchWindowHours = None \<rparr> []
   = (Inl (ErrorObj ''Error'' JUndefined (LINKING_ERROR False)), [])"
proof -
  have good: "regex_test API_KEY_PATTERN ''wl_live_abcdefghijklmnopqrstuvwxyz012345''"
    by code_simp
  then show ?thesis
    by (simp add: configure_def createProxy_def)
qed

section \<open>Properties of the error mapping\<close>

lemma isErrorCode_iff: "isErrorCode c = (c \<in> JStr ` set ErrorCodes_values)"
  by (simp add: isErrorCode_def)

lemma ErrorCodes_truthy: "k \<in> set ErrorCodes_values \<Longrightarrow> ToBoolean (JStr k)"
  by (auto simp: ErrorCodes_values_def E_NOT_CONFIGURED_def E_INVALID_API_KEY_FORMAT_def
        E_INVALID_API_KEY_def E_NETWORK_ERROR_def E_SERVER_ERROR_def E_INVALID_URL_def
        E_LINK_NOT_FOUND_def E_DECODING_ERROR_def)

lemma mapNativeError_known:
  "k \<in> set ErrorCodes_values
     \<Longrightarrow> mapNativeError N (ErrorObj nm (JStr k) m) = Inr \<lparr> code = k, message = m \<rparr>"
  using ErrorCodes_truthy [of k] by (simp add: mapNativeError_def isErrorCode_iff)

lemma mapNativeError_unknown:
  "c \<notin> JStr ` set ErrorCodes_values
     \<Longrightarrow> mapNativeError N (ErrorObj nm c m) = Inr \<lparr> code = E_SERVER_ERROR, message = m \<rparr>"
  by (simp add: mapNativeError_def isErrorCode_iff)

text \<open>
  Claim C4, as the code has it. For every rejecting value that is an \<^verbatim>\<open>Error\<close> instance,
  \<^verbatim>\<open>mapNativeError\<close> returns, without throwing, the typed error with the instance's message and
  with the instance's \<^verbatim>\<open>code\<close> when that is one of the eight known codes, the server-error code
  otherwise; an \<^verbatim>\<open>Error\<close> with message \<^verbatim>\<open>x\<close> and code \<^verbatim>\<open>E_NETWORK_ERROR\<close> maps to the network
  error with message \<^verbatim>\<open>x\<close>. For every other rejecting value that \<^verbatim>\<open>String\<close> converts it returns
  the server error whose message is that conversion, whatever \<^verbatim>\<open>code\<close> or \<^verbatim>\<open>message\<close> the value
  may carry; for a value \<^verbatim>\<open>String\<close> cannot convert it throws.
\<close>

theorem mapNativeError_typed:
  "(\<forall>k \<in> set ErrorCodes_values.
      mapNativeError N (ErrorObj nm (JStr k) m) = Inr \<lparr> code = k, message = m \<rparr>)
   \<and> (c \<notin> JStr ` set ErrorCodes_values
        \<longrightarrow> mapNativeError N (ErrorObj nm c m) = Inr \<lparr> code = E_SERVER_ERROR, message = m \<rparr>)
   \<and> mapNativeError N (ErrorObj nm (JStr ''E_NETWORK_ERROR'') ''x'')
       = Inr \<lparr> code = E_NETWORK_ERROR, message = ''x'' \<rparr>
   \<and> (convertible v
        \<longrightarrow> (\<exists>s. ToString N v = Inr s
               \<and> mapNativeError N (NonError v) = Inr \<lparr> code = E_SERVER_ERROR, message = s \<rparr>))
   \<and> (\<not> convertible v \<longrightarrow> (\<exists>t. mapNativeError N (NonError v) = Inl t))"
proof -
  have net: "E_NETWORK_ERROR \<in> set ErrorCodes_values"
    by (simp add: ErrorCodes_values_def)
  have a: "mapNativeError N (ErrorObj nm (JStr ''E_NETWORK_ERROR'') ''x'')
       = Inr \<lparr> code = E_NETWORK_ERROR, message = ''x'' \<rparr>"
    using mapNativeError_known [OF net, of N nm "''x''"] by (simp add: E_NETWORK_ERROR_def)
  have b: "\<exists>s. ToString N v = Inr s
               \<and> mapNativeError N (NonError v) = Inr \<lparr> code = E_SERVER_ERROR, message = s \<rparr>"
    if "convertible v"
    using that ToString_convertible(1) [of N v] by (auto simp: mapNativeError_def)
  have c: "\<exists>t. mapNativeError N (NonError v) = Inl t" if "\<not> convertible v"
    using ToString_throws [OF that, of N] by (auto simp: mapNativeError_def)
  from a b c mapNativeError_known mapNativeError_unknown show ?thesis by blast
qed

theorem mapNativeError_typed_witness:
  "E_LINK_NOT_FOUND \<in> set ErrorCodes_values
   \<and> mapNativeError sample_number_string (ErrorObj ''Error'' (JStr E_LINK_NOT_FOUND) ''Link not found'')
       = Inr \<lparr> code = E_LINK_NOT_FOUND, message = ''Link not found'' \<rparr>
   \<and> JStr ''E_CUSTOM'' \<notin> JStr ` set ErrorCodes_values
   \<and> mapNativeError sample_number_string (ErrorObj ''Error'' (JStr ''E_CUSTOM'') ''Something'')
       = Inr \<lparr> code = E_SERVER_ERROR, message = ''Something'' \<rparr>
   \<and> convertible (JStr ''boom'')
   \<and> mapNativeError sample_number_string (NonError (JStr ''boom''))
       = Inr \<lparr> code = E_SERVER_ERROR, message = ''boom'' \<rparr>
   \<and> \<not> convertible (JObj [(''toString'', JNull)])
   \<and> mapNativeError sample_number_string (NonError (JObj [(''toString'', JNull)])) = Inl TypeError"
  using mapNativeError_typed
          [of sample_number_string "''Error''" "''Link not found''" "JStr ''E_CUSTOM''" "JStr ''boom''"]
        mapNativeError_typed
          [of sample_number_string "''Error''" "''Something''" "JStr ''E_CUSTOM''"
              "JObj [(''toString'', JNull)]"]
  by (auto simp: ErrorCodes_values_def E_NOT_CONFIGURED_def E_INVALID_API_KEY_FORMAT_def
        E_INVALID_API_KEY_def E_NETWORK_ERROR_def E_SERVER_ERROR_def E_INVALID_URL_def
        E_LINK_NOT_FOUND_def E_DECODING_ERROR_def mapNativeError_def)

text \<open>
  Claim C4 as written covers every rejecting value. The plain object
  \<^verbatim>\<open>{ message: "x", code: "E_NETWORK_ERROR" }\<close>, which is not an \<^verbatim>\<open>Error\<close> instance, maps to the
  server error with the message \<^verbatim>\<open>[object Object]\<close>: neither its code nor its message is
  kept.
\<close>

theorem mapNativeError_plain_object:
  "mapNativeError sample_number_string
     (NonError (JObj [(''message'', JStr ''x''), (''code'', JStr ''E_NETWORK_ERROR'')]))
   = Inr \<lparr> code = ''E_SERVER_ERROR'', message = ''[object Object]'' \<rparr>"
  by (simp add: mapNativeError_def E_SERVER_ERROR_def)

section \<open>Properties of the multiplexer\<close>

lemma Set_values_Cons [simp]:
  "Set_values (None # es) = Set_values es"
  "Set_values (Some x # es) = x # Set_values es"
  by (simp_all add: Set_values_def)

lemma Set_values_Nil [simp]: "Set_values [] = []"
  by (simp add: Set_values_def)

lemma Set_values_append [simp]: "Set_values (es @ fs) = Set_values es @ Set_values fs"
  by (simp add: Set_values_def)

lemma set_Set_values: "(x \<in> set (Set_values es)) = (Some x \<in> set es)"
  by (induction es) (auto split: option.splits simp: Set_values_def)

lemma Set_has_iff: "Set_has es x = (x \<in> set (Set_values es))"
  by (simp add: Set_has_def set_Set_values)

lemma Set_values_add:
  "Set_values (Set_add es x) =
     (if x \<in> set (Set_values es) then Set_values es else Set_values es @ [x])"
  by (simp add: Set_add_def Set_has_iff)

lemma Set_values_delete: "Set_values (Set_delete es x) = removeAll x (Set_values es)"
proof (induction es)
  case Nil
  show ?case by (simp add: Set_delete_def)
next
  case (Cons e es)
  then show ?case by (cases e) (auto simp: Set_delete_def)
qed

lemma Set_size_values: "Set_size es = length (Set_values es)"
proof (induction es)
  case Nil
  show ?case by (simp add: Set_size_def)
next
  case (Cons e es)
  then show ?case by (cases e) (auto simp: Set_size_def)
qed

lemma mux_inv_initial: "mux_inv initial_multiplexer"
  by (simp add: mux_inv_def initial_multiplexer_def)

lemma mux_inv_onDeepLink: "mux_inv s \<Longrightarrow> mux_inv (onDeepLink l s)"
  by (auto simp: mux_inv_def onDeepLink_def Let_def Set_values_add split: option.splits)

lemma mux_inv_unsubscribe: "mux_inv s \<Longrightarrow> mux_inv (unsubscribe l s)"
  by (auto simp: mux_inv_def unsubscribe_def Let_def Set_values_delete Set_size_values
        distinct_removeAll split: option.splits)

lemma fold_handleNativeDeepLinkEvent_fields:
  "listeners (fold (\<lambda>h. handleNativeDeepLinkEvent url) hs s) = listeners s
   \<and> nativeSubscription (fold (\<lambda>h. handleNativeDeepLinkEvent url) hs s) = nativeSubscription s
   \<and> emitter_handlers (fold (\<lambda>h. handleNativeDeepLinkEvent url) hs s) = emitter_handlers s
   \<and> delivered (fold (\<lambda>h. handleNativeDeepLinkEvent url) hs s) = delivered s"
  by (induction hs arbitrary: s) (simp_all add: handleNativeDeepLinkEvent_def)

lemma native_emit_fields [simp]:
  "listeners (native_emit url s) = listeners s"
  "nativeSubscription (native_emit url s) = nativeSubscription s"
  "emitter_handlers (native_emit url s) = emitter_handlers s"
  "delivered (native_emit url s) = delivered s"
  using fold_handleNativeDeepLinkEvent_fields [of url "emitter_handlers s" s]
  by (simp_all add: native_emit_def)

lemma mux_inv_native_emit: "mux_inv s \<Longrightarrow> mux_inv (native_emit url s)"
  by (simp add: mux_inv_def)

lemma mux_inv_step: "mux_inv s \<Longrightarrow> mux_inv (mux_step op s)"
  by (cases op) (simp_all add: mux_inv_onDeepLink mux_inv_unsubscribe mux_inv_native_emit)

lemma mux_inv_run: "mux_inv s \<Longrightarrow> mux_inv (mux_run ops s)"
  unfolding mux_run_def by (induction ops arbitrary: s) (simp_all add: mux_inv_step)

lemma native_emit_calls:
  "mux_inv s \<Longrightarrow>
     resolver_calls (native_emit url s) =
       (if Set_values (listeners s) = [] then resolver_calls s else resolver_calls s @ [url])"
  by (auto simp: mux_inv_def native_emit_def handleNativeDeepLinkEvent_def split: option.splits)

lemma onDeepLink_effect:
  "Set_values (listeners (onDeepLink l s)) =
     (if l \<in> set (Set_values (listeners s)) then Set_values (listeners s)
      else Set_values (listeners s) @ [l])"
  "nativeSubscription s = None \<Longrightarrow>
     nativeSubscription (onDeepLink l s) = Some (next_handle s)
     \<and> emitter_handlers (onDeepLink l s) = emitter_handlers s @ [next_handle s]"
  "nativeSubscription s \<noteq> None \<Longrightarrow>
     nativeSubscription (onDeepLink l s) = nativeSubscription s
     \<and> emitter_handlers (onDeepLink l s) = emitter_handlers s"
  by (auto simp: onDeepLink_def Let_def Set_values_add)

lemma unsubscribe_effect:
  "Set_values (listeners (unsubscribe l s)) = removeAll l (Set_values (listeners s))"
  "nativeSubscription s = Some h \<Longrightarrow> removeAll l (Set_values (listeners s)) = [] \<Longrightarrow>
     nativeSubscription (unsubscribe l s) = None
     \<and> emitter_handlers (unsubscribe l s) = removeAll h (emitter_handlers s)"
  "nativeSubscription s = None \<or> removeAll l (Set_values (listeners s)) \<noteq> [] \<Longrightarrow>
     nativeSubscription (unsubscribe l s) = nativeSubscription s
     \<and> emitter_handlers (unsubscribe l s) = emitter_handlers s"
  by (auto simp: unsubscribe_def Let_def Set_values_delete Set_size_values split: option.splits)

text \<open>
  Claim C8. Let \<open>s\<close> be the state after any sequence of subscriptions, unsubscriptions and
  push events from the initial state. In \<open>s\<close> the subscription to the native emitter is held
  exactly when the set of listeners is not empty, the emitter has exactly the handler of
  that subscription and none when none is held, and no listener is in the set twice.
  Subscribing a listener in \<open>s\<close> puts it into the set (at the end, unless it is there already);
  when the set was empty this establishes the subscription, registering one handler at the
  emitter, and when it was not, the subscription and the emitter's handlers stay as they are.
  Unsubscribing a listener in \<open>s\<close> takes it out of the set; when this leaves the set empty the
  subscription is given up and the emitter is left without a handler, and otherwise the
  subscription and the handlers stay as they are. A push event in \<open>s\<close> calls the resolver once
  when there is a listener and not at all when there is none.
\<close>

theorem subscription_iff_listeners:
  assumes "s = mux_run ops initial_multiplexer"
  shows "(nativeSubscription s \<noteq> None) = (Set_values (listeners s) \<noteq> [])
   \<and> emitter_handlers s = (case nativeSubscription s of None \<Rightarrow> [] | Some h \<Rightarrow> [h])
   \<and> distinct (Set_values (listeners s))
   \<and> Set_values (listeners (onDeepLink l s)) =
       (if l \<in> set (Set_values (listeners s)) then Set_values (listeners s)
        else Set_values (listeners s) @ [l])
   \<and> (Set_values (listeners s) = []
        \<longrightarrow> nativeSubscription (onDeepLink l s) = Some (next_handle s)
            \<and> emitter_handlers (onDeepLink l s) = [next_handle s])
   \<and> (Set_values (listeners s) \<noteq> []
        \<longrightarrow> nativeSubscription (onDeepLink l s) = nativeSubscription s
            \<and> emitter_handlers (onDeepLink l s) = emitter_handlers s)
   \<and> Set_values (listeners (unsubscribe l s)) = removeAll l (Set_values (listeners s))
   \<and> (removeAll l (Set_values (listeners s)) = []
        \<longrightarrow> nativeSubscription (unsubscribe l s) = None
            \<and> emitter_handlers (unsubscribe l s) = [])
   \<and> (removeAll l (Set_values (listeners s)) \<noteq> []
        \<longrightarrow> nativeSubscription (unsubscribe l s) = nativeSubscription s
            \<and> emitter_handlers (unsubscribe l s) = emitter_handlers s)
   \<and> resolver_calls (native_emit url s) =
       (if Set_values (listeners s) = [] then resolver_calls s else resolver_calls s @ [url])"
proof -
  have inv: "mux_inv s"
    unfolding assms by (rule mux_inv_run [OF mux_inv_initial])
  have a: "(nativeSubscription s \<noteq> None) = (Set_values (listeners s) \<noteq> [])"
    and b: "emitter_handlers s = (case nativeSubscription s of None \<Rightarrow> [] | Some h \<Rightarrow> [h])"
    and c: "distinct (Set_values (listeners s))"
    using inv by (simp_all add: mux_inv_def)
  have sub_first: "nativeSubscription (onDeepLink l s) = Some (next_handle s)
            \<and> emitter_handlers (onDeepLink l s) = [next_handle s]"
    if "Set_values (listeners s) = []"
  proof -
    from that a have n: "nativeSubscription s = None" by simp
    with b have "emitter_handlers s = []" by simp
    with onDeepLink_effect(2) [OF n, of l] show ?thesis by simp
  qed
  have sub_more: "nativeSubscription (onDeepLink l s) = nativeSubscription s
            \<and> emitter_handlers (onDeepLink l s) = emitter_handlers s"
    if "Set_values (listeners s) \<noteq> []"
    using that a onDeepLink_effect(3) [of s l] by simp
  have unsub_last: "nativeSubscription (unsubscribe l s) = None
            \<and> emitter_handlers (unsubscribe l s) = []"
    if e: "removeAll l (Set_values (listeners s)) = []"
  proof (cases "nativeSubscription s")
    case None
    with b unsubscribe_effect(3) [of s l] show ?thesis by simp
  next
    case (Some h)
    with b have "emitter_handlers s = [h]" by simp
    with unsubscribe_effect(2) [OF Some e] show ?thesis by simp
  qed
  have unsub_more: "nativeSubscription (unsubscribe l s) = nativeSubscription s
            \<and> emitter_handlers (unsubscribe l s) = emitter_handlers s"
    if "removeAll l (Set_values (listeners s)) \<noteq> []"
    using that unsubscribe_effect(3) [of s l] by simp
  note d = onDeepLink_effect(1) [of l s] unsubscribe_effect(1) [of l s]
    native_emit_calls [OF inv, of url]
  from a b c d sub_first sub_more unsub_last unsub_more show ?thesis by blast
qed

theorem subscription_iff_listeners_witness:
  "Set_values (listeners (mux_run [OnDeepLink 1, OnDeepLink 2, Unsub 1, Unsub 2] initial_multiplexer)) = []
   \<and> nativeSubscription (mux_run [OnDeepLink 1, OnDeepLink 2, Unsub 1, Unsub 2] initial_multiplexer) = None
   \<and> nativeSubscription
       (onDeepLink 3 (mux_run [OnDeepLink 1, OnDeepLink 2, Unsub 1, Unsub 2] initial_multiplexer))
       = Some 1
   \<and> emitter_handlers
       (onDeepLink 3 (mux_run [OnDeepLink 1, OnDeepLink 2, Unsub 1, Unsub 2] initial_multiplexer))
       = [1]
   \<and> resolver_calls (native_emit ''u''
        (mux_run [OnDeepLink 1, OnDeepLink 2, Unsub 1, Unsub 2] initial_multiplexer)) = []
   \<and> Set_values (listeners (mux_run [OnDeepLink 1, OnDeepLink 2, Unsub 1] initial_multiplexer)) = [2]
   \<and> emitter_handlers (mux_run [OnDeepLink 1, OnDeepLink 2, Unsub 1] initial_multiplexer) = [0]
   \<and> emitter_handlers
       (onDeepLink 3 (mux_run [OnDeepLink 1, OnDeepLink 2, Unsub 1] initial_multiplexer)) = [0]
   \<and> removeAll 2
       (Set_values (listeners (mux_run [OnDeepLink 1, OnDeepLink 2, Unsub 1] initial_multiplexer))) = []
   \<and> nativeSubscription
       (unsubscribe 2 (mux_run [OnDeepLink 1, OnDeepLink 2, Unsub 1] initial_multiplexer)) = None
   \<and> emitter_handlers
       (unsubscribe 2 (mux_run [OnDeepLink 1, OnDeepLink 2, Unsub 1] initial_multiplexer)) = []
   \<and> resolver_calls (native_emit ''u''
        (mux_run [OnDeepLink 1, OnDeepLink 2, Unsub 1] initial_multiplexer)) = [''u'']"
  using subscription_iff_listeners
          [OF refl, of "[OnDeepLink 1, OnDeepLink 2, Unsub 1, Unsub 2]" 3 "''u''"]
        subscription_iff_listeners
          [OF refl, of "[OnDeepLink 1, OnDeepLink 2, Unsub 1]" 2 "''u''"]
        subscription_iff_listeners
          [OF refl, of "[OnDeepLink 1, OnDeepLink 2, Unsub 1]" 3 "''u''"]
  by (simp add: mux_run_def initial_multiplexer_def onDeepLink_def unsubscribe_def Let_def
        Set_add_def Set_has_def Set_delete_def Set_size_def native_emit_def
        handleNativeDeepLinkEvent_def)

lemma invoke_quiet:
  "invoke quiet l ev s = (s\<lparr> delivered := delivered s @ [(l, ev)] \<rparr>, None)"
  by (simp add: invoke_def quiet_def)

lemma fanout_quiet:
  "length (listeners s) - i < k \<Longrightarrow>
     fanout k quiet ev i s =
       Some (None, s\<lparr> delivered := delivered s
                          @ map (\<lambda>l. (l, ev)) (Set_values (drop i (listeners s))) \<rparr>)"
proof (induction k arbitrary: i s)
  case 0
  then show ?case by simp
next
  case (Suc k)
  show ?case
  proof (cases "i < length (listeners s)")
    case False
    then show ?thesis by simp
  next
    case True
    then have dr: "drop i (listeners s) = listeners s ! i # drop (Suc i) (listeners s)"
      by (simp add: Cons_nth_drop_Suc)
    from True Suc.prems have fuel: "length (listeners s) - Suc i < k" by arith
    show ?thesis
    proof (cases "listeners s ! i")
      case None
      with True dr Suc.IH [OF fuel] show ?thesis by simp
    next
      case (Some l)
      let ?s1 = "s\<lparr> delivered := delivered s @ [(l, ev)] \<rparr>"
      have "length (listeners ?s1) - Suc i < k" using fuel by simp
      from Suc.IH [OF this] True Some dr show ?thesis
        by (simp add: invoke_quiet)
    qed
  qed
qed

lemma ToString_throws_TypeError:
  "ToString N v = Inl t \<Longrightarrow> t = TypeError"
  "join_elems N vs = Inl t \<Longrightarrow> t = TypeError"
proof (induction N v and N vs rule: ToString_join_elems.induct)
  case (9 N x xs)
  then show ?case
    by (auto split: if_splits sum.splits)
qed (auto split: if_splits)

lemma deserializeDeepLink_throws_TypeError:
  "deserializeDeepLink N raw = Inl t \<Longrightarrow> t = TypeError"
  by (auto simp: deserializeDeepLink_def split: if_splits sum.splits
        dest: ToString_throws_TypeError(1))

lemma mapNativeError_TypeError:
  "mapNativeError N TypeError =
     Inr \<lparr> code = E_SERVER_ERROR, message = err_message TypeError \<rparr>"
  by (simp add: mapNativeError_def TypeError_def)

text \<open>
  Claim C1, as the code has it. A push event carrying a URL, arriving while a listener is
  registered, calls the resolver once on that URL. When the call settles and the listeners
  neither call back into the multiplexer nor throw, there are five cases. If it resolves to a
  value that normalises to a link, every listener in the set at settlement is called exactly
  once, in the order of the set, with one and the same event carrying that link. If it
  resolves to a value that normalises to null, no listener is called. If it resolves to a
  value on which the normalisation throws, every listener in the set is called exactly once
  with one and the same error event, a server error with the message of the exception. If it
  rejects with a value that \<^verbatim>\<open>mapNativeError\<close> maps, which it does for every \<^verbatim>\<open>Error\<close> instance,
  every listener in the set is called exactly once with one and the same error event carrying
  the mapped error. If it rejects with a value on which \<^verbatim>\<open>mapNativeError\<close> throws, no listener
  is called and the exception leaves \<^verbatim>\<open>resolveAndDispatch\<close>.
\<close>

theorem push_event_fanout:
  assumes "mux_inv s" and "length (listeners s) < k"
  shows "(Set_values (listeners s) \<noteq> []
            \<longrightarrow> resolver_calls (native_emit url s) = resolver_calls s @ [url])
     \<and> (\<forall>deepLink. deserializeDeepLink N raw = Inr (Some deepLink)
            \<longrightarrow> resolveAndDispatch_settled N k quiet (Resolved raw) s =
                  Some (None, s\<lparr> delivered := delivered s
                     @ map (\<lambda>l. (l, DeepLinkEv deepLink)) (Set_values (listeners s)) \<rparr>))
     \<and> (deserializeDeepLink N raw = Inr None
            \<longrightarrow> resolveAndDispatch_settled N k quiet (Resolved raw) s = Some (None, s))
     \<and> (\<forall>t. deserializeDeepLink N raw = Inl t
            \<longrightarrow> resolveAndDispatch_settled N k quiet (Resolved raw) s =
                  Some (None, s\<lparr> delivered := delivered s
                     @ map (\<lambda>l. (l, ErrorEv \<lparr> code = E_SERVER_ERROR, message = err_message t \<rparr>))
                         (Set_values (listeners s)) \<rparr>))
     \<and> (\<forall>t e. deserializeDeepLink N raw = Inl t \<and> mapNativeError N t = Inr e
            \<longrightarrow> resolveAndDispatch_settled N k quiet (Resolved raw) s =
                  Some (None, s\<lparr> delivered := delivered s
                     @ map (\<lambda>l. (l, ErrorEv e)) (Set_values (listeners s)) \<rparr>))
     \<and> (\<forall>e. mapNativeError N error = Inr e
            \<longrightarrow> resolveAndDispatch_settled N k quiet (Rejected error) s =
                  Some (None, s\<lparr> delivered := delivered s
                     @ map (\<lambda>l. (l, ErrorEv e)) (Set_values (listeners s)) \<rparr>))
     \<and> (\<forall>t. mapNativeError N error = Inl t
            \<longrightarrow> resolveAndDispatch_settled N k quiet (Rejected error) s = Some (Some t, s))
     \<and> (\<forall>nm c m. \<exists>e. mapNativeError N (ErrorObj nm c m) = Inr e \<and> message e = m)
     \<and> distinct (Set_values (listeners s))"
proof -
  have fuel: "length (listeners s) - 0 < k" using assms(2) by simp
  have f: "fanout k quiet ev 0 s =
       Some (None, s\<lparr> delivered := delivered s
                          @ map (\<lambda>l. (l, ev)) (Set_values (listeners s)) \<rparr>)" for ev
    using fanout_quiet [OF fuel, of ev] by simp
  have a: "Set_values (listeners s) \<noteq> []
            \<longrightarrow> resolver_calls (native_emit url s) = resolver_calls s @ [url]"
    using native_emit_calls [OF assms(1), of url] by simp
  have b: "resolveAndDispatch_settled N k quiet (Resolved raw) s =
                  Some (None, s\<lparr> delivered := delivered s
                     @ map (\<lambda>l. (l, DeepLinkEv deepLink)) (Set_values (listeners s)) \<rparr>)"
    if "deserializeDeepLink N raw = Inr (Some deepLink)" for deepLink
    using that by (simp add: resolveAndDispatch_settled_def f)
  have b0: "resolveAndDispatch_settled N k quiet (Resolved raw) s = Some (None, s)"
    if "deserializeDeepLink N raw = Inr None"
    using that by (simp add: resolveAndDispatch_settled_def)
  have c: "resolveAndDispatch_settled N k quiet (Resolved raw) s =
                  Some (None, s\<lparr> delivered := delivered s
                     @ map (\<lambda>l. (l, ErrorEv e)) (Set_values (listeners s)) \<rparr>)"
    if "deserializeDeepLink N raw = Inl t \<and> mapNativeError N t = Inr e" for t e
    using that by (simp add: resolveAndDispatch_settled_def dispatch_error_def f)
  have c0: "resolveAndDispatch_settled N k quiet (Resolved raw) s =
                  Some (None, s\<lparr> delivered := delivered s
                     @ map (\<lambda>l. (l, ErrorEv \<lparr> code = E_SERVER_ERROR, message = err_message t \<rparr>))
                         (Set_values (listeners s)) \<rparr>)"
    if t: "deserializeDeepLink N raw = Inl t" for t
  proof -
    from t have "t = TypeError" by (rule deserializeDeepLink_throws_TypeError)
    with t mapNativeError_TypeError [of N] show ?thesis
      using c [of t "\<lparr> code = E_SERVER_ERROR, message = err_message t \<rparr>"] by simp
  qed
  have d: "resolveAndDispatch_settled N k quiet (Rejected error) s =
                  Some (None, s\<lparr> delivered := delivered s
                     @ map (\<lambda>l. (l, ErrorEv e)) (Set_values (listeners s)) \<rparr>)"
    if "mapNativeError N error = Inr e" for e
    using that by (simp add: resolveAndDispatch_settled_def dispatch_error_def f)
  have d0: "resolveAndDispatch_settled N k quiet (Rejected error) s = Some (Some t, s)"
    if "mapNativeError N error = Inl t" for t
    using that by (simp add: resolveAndDispatch_settled_def dispatch_error_def)
  have m: "\<exists>e. mapNativeError N (ErrorObj nm c m) = Inr e \<and> message e = m" for nm c m
    by (simp add: mapNativeError_def)
  have e: "distinct (Set_values (listeners s))"
    using assms(1) by (simp add: mux_inv_def)
  from a b b0 c c0 d d0 m e show ?thesis by blast
qed

lemma two_listeners:
  "mux_run [OnDeepLink 1, OnDeepLink 2] initial_multiplexer =
     \<lparr> emitter = True, listeners = [Some 1, Some 2], nativeSubscription = Some 0,
       emitter_handlers = [0], next_handle = 1, resolver_calls = [], delivered = [] \<rparr>"
  by (simp add: mux_run_def initial_multiplexer_def onDeepLink_def Let_def Set_add_def Set_has_def)

theorem push_event_fanout_witness:
  "mux_inv (mux_run [OnDeepLink 1, OnDeepLink 2] initial_multiplexer)
   \<and> length (listeners (mux_run [OnDeepLink 1, OnDeepLink 2] initial_multiplexer)) < 3
   \<and> resolver_calls (native_emit ''U'' (mux_run [OnDeepLink 1, OnDeepLink 2] initial_multiplexer))
       = [''U'']
   \<and> deserializeDeepLink sample_number_string (JObj [(''linkId'', JStr ''a'')])
       = Inr (Some \<lparr> WarpLinkDeepLink.linkId = ''a'', destination = '''', deepLinkUrl = None,
                     customParams = JObj [], WarpLinkDeepLink.isDeferred = False,
                     WarpLinkDeepLink.matchType = None, WarpLinkDeepLink.matchConfidence = None \<rparr>)
   \<and> map fst (delivered (snd (the (resolveAndDispatch_settled sample_number_string 3 quiet
         (Resolved (JObj [(''linkId'', JStr ''a'')]))
         (mux_run [OnDeepLink 1, OnDeepLink 2] initial_multiplexer))))) = [1, 2]
   \<and> delivered (snd (the (resolveAndDispatch_settled sample_number_string 3 quiet
         (Rejected (ErrorObj ''Error'' (JStr ''E_NETWORK_ERROR'') ''Network error''))
         (mux_run [OnDeepLink 1, OnDeepLink 2] initial_multiplexer))))
       = [(1, ErrorEv \<lparr> code = ''E_NETWORK_ERROR'', message = ''Network error'' \<rparr>),
          (2, ErrorEv \<lparr> code = ''E_NETWORK_ERROR'', message = ''Network error'' \<rparr>)]
   \<and> mapNativeError sample_number_string (NonError (JObj [(''toString'', JNull)])) = Inl TypeError
   \<and> resolveAndDispatch_settled sample_number_string 3 quiet
         (Rejected (NonError (JObj [(''toString'', JNull)])))
         (mux_run [OnDeepLink 1, OnDeepLink 2] initial_multiplexer)
       = Some (Some TypeError, mux_run [OnDeepLink 1, OnDeepLink 2] initial_multiplexer)"
proof -
  have inv: "mux_inv (mux_run [OnDeepLink 1, OnDeepLink 2] initial_multiplexer)"
    by (rule mux_inv_run [OF mux_inv_initial])
  have m': "mapNativeError sample_number_string (NonError (JObj [(''toString'', JNull)]))
       = Inl TypeError"
    by (simp add: mapNativeError_def)
  have fuel: "length (listeners (mux_run [OnDeepLink 1, OnDeepLink 2] initial_multiplexer)) < 3"
    unfolding two_listeners by simp
  have d: "deserializeDeepLink sample_number_string (JObj [(''linkId'', JStr ''a'')])
       = Inr (Some \<lparr> WarpLinkDeepLink.linkId = ''a'', destination = '''', deepLinkUrl = None,
                     customParams = JObj [], WarpLinkDeepLink.isDeferred = False,
                     WarpLinkDeepLink.matchType = None, WarpLinkDeepLink.matchConfidence = None \<rparr>)"
    by (simp add: deserializeDeepLink_def loose_null_def nullish_def)
  have m: "mapNativeError sample_number_string (ErrorObj ''Error'' (JStr ''E_NETWORK_ERROR'') ''Network error'')
       = Inr \<lparr> code = ''E_NETWORK_ERROR'', message = ''Network error'' \<rparr>"
    by (simp add: mapNativeError_def isErrorCode_def ErrorCodes_values_def E_NETWORK_ERROR_def)
  show ?thesis
    using push_event_fanout [OF inv fuel, of "''U''" sample_number_string
            "JObj [(''linkId'', JStr ''a'')]"
            "ErrorObj ''Error'' (JStr ''E_NETWORK_ERROR'') ''Network error''"]
          push_event_fanout [OF inv fuel, of "''U''" sample_number_string
            "JObj [(''linkId'', JStr ''a'')]" "NonError (JObj [(''toString'', JNull)])"]
          inv fuel d m m'
    unfolding two_listeners by simp
qed

text \<open>
  Claim C1 as written promises an event for every settlement. When the resolver resolves
  to null while listener 1 is registered, the listener is not called.
\<close>

theorem null_resolution_reaches_nobody:
  "Set_values (listeners (mux_run [OnDeepLink 1] initial_multiplexer)) = [1]
   \<and> resolveAndDispatch_settled sample_number_string 3 quiet (Resolved JNull)
        (mux_run [OnDeepLink 1] initial_multiplexer)
     = Some (None, mux_run [OnDeepLink 1] initial_multiplexer)
   \<and> delivered (mux_run [OnDeepLink 1] initial_multiplexer) = []"
  by (simp add: mux_run_def initial_multiplexer_def onDeepLink_def Let_def Set_add_def Set_has_def
        resolveAndDispatch_settled_def deserializeDeepLink_def loose_null_def)

text \<open>
  Claim C10. When the resolver's promise is fulfilled with a value that normalises to
  null, \<^verbatim>\<open>resolveAndDispatch\<close> ends without calling any listener, for whatever listeners are
  registered: the state (the set of listeners, the subscription, the record of listener
  calls) is left as it was.
\<close>

theorem no_match_delivers_nothing:
  assumes "deserializeDeepLink N raw = Inr None"
  shows "resolveAndDispatch_settled N k B (Resolved raw) s = Some (None, s)"
  using assms by (simp add: resolveAndDispatch_settled_def)

theorem no_match_delivers_nothing_witness:
  "deserializeDeepLink sample_number_string (JStr ''no match'') = Inr None
   \<and> resolveAndDispatch_settled sample_number_string 0 first_removes_second
        (Resolved (JStr ''no match'')) (mux_run [OnDeepLink 1, OnDeepLink 2] initial_multiplexer)
     = Some (None, mux_run [OnDeepLink 1, OnDeepLink 2] initial_multiplexer)"
proof -
  have n: "deserializeDeepLink sample_number_string (JStr ''no match'') = Inr None"
    by (simp add: deserializeDeepLink_def loose_null_def)
  show ?thesis
    using n no_match_delivers_nothing [OF n, of 0 first_removes_second
            "mux_run [OnDeepLink 1, OnDeepLink 2] initial_multiplexer"]
    by simp
qed






lemma unsubscribe_fields:
  "listeners (unsubscribe l s) = Set_delete (listeners s) l"
  "delivered (unsubscribe l s) = delivered s"
  by (simp_all add: unsubscribe_def Let_def split: option.splits)






lemma length_Set_delete: "length (Set_delete es x) = length es"
  by (simp add: Set_delete_def)

lemma fold_unsubscribe_length:
  "\<forall>a \<in> set acts. \<exists>l. a = Unsubscribe l \<Longrightarrow>
     length (listeners (fold apply_action acts s)) = length (listeners s)"
proof (induction acts arbitrary: s)
  case Nil
  show ?case by simp
next
  case (Cons a acts)
  then obtain l where a: "a = Unsubscribe l" by auto
  from Cons.prems have "\<forall>a \<in> set acts. \<exists>l. a = Unsubscribe l" by simp
  from Cons.IH [OF this, of "unsubscribe l s"] a show ?case
    by (simp add: unsubscribe_fields length_Set_delete)
qed

text \<open>
  The loop completes: when no listener subscribes a listener or throws, fuel above the
  number of slots is enough.
\<close>

lemma fanout_completes:
  assumes unsub: "\<And>l ev s. \<forall>a \<in> set (fst (B l ev s)). \<exists>l'. a = Unsubscribe l'"
    and calm: "\<And>l ev s. snd (B l ev s) = None"
  shows "length (listeners s) - i < k \<Longrightarrow> \<exists>s'. fanout k B ev i s = Some (None, s')"
proof (induction k arbitrary: i s)
  case 0
  then show ?case by simp
next
  case (Suc k)
  show ?case
  proof (cases "i < length (listeners s)")
    case False
    then show ?thesis by simp
  next
    case True
    with Suc.prems have fuel: "length (listeners s) - Suc i < k" by arith
    show ?thesis
    proof (cases "listeners s ! i")
      case None
      with True Suc.IH [OF fuel] show ?thesis by simp
    next
      case (Some l)
      let ?s1 = "s\<lparr> delivered := delivered s @ [(l, ev)] \<rparr>"
      let ?s2 = "fold apply_action (fst (B l ev ?s1)) ?s1"
      have iv: "invoke B l ev s = (?s2, None)"
        by (simp add: invoke_def Let_def calm)
      have "length (listeners ?s2) = length (listeners s)"
        using fold_unsubscribe_length [OF unsub [of l ev ?s1], of ?s1] by simp
      with fuel have "length (listeners ?s2) - Suc i < k" by simp
      from Suc.IH [OF this] True Some iv show ?thesis by simp
    qed
  qed
qed













section \<open>Properties of the cold-start retrieval\<close>







end
